theory Spec2Isabelle
  imports Complex_Main
begin

section \<open>JavaScript numbers\<close>

text \<open>
  A JavaScript number is modelled as a finite value, one of the two infinities, or NaN.
  Finite arithmetic is exact: the rounding of IEEE doubles and the sign of zero are not
  modelled, and a division by zero takes the sign of the numerator. The model therefore
  agrees with the program wherever the program's doubles are exact, which is the case for
  whole numbers of magnitude up to \<open>2^53\<close> and their sums, differences and
  comparisons; the theorems below that state a numeric value bound their inputs
  accordingly. Whole numbers, as \<open>parseInt\<close> and \<open>Math.round\<close> return them, are
  \<open>int jsnum\<close>; all others are \<open>real jsnum\<close>. A field that may be absent is an
  \<open>option\<close>: reading it gives \<open>undefined\<close>, which arithmetic converts to NaN.
\<close>

datatype 'a jsnum = Fin 'a | PInf | NInf | NaN

fun js_neg :: "'a::linordered_idom jsnum \<Rightarrow> 'a jsnum" where
  "js_neg (Fin x) = Fin (- x)"
| "js_neg PInf = NInf"
| "js_neg NInf = PInf"
| "js_neg NaN = NaN"

fun js_add :: "'a::linordered_idom jsnum \<Rightarrow> 'a jsnum \<Rightarrow> 'a jsnum" where
  "js_add NaN b = NaN"
| "js_add a NaN = NaN"
| "js_add (Fin x) (Fin y) = Fin (x + y)"
| "js_add PInf NInf = NaN"
| "js_add NInf PInf = NaN"
| "js_add PInf b = PInf"
| "js_add a PInf = PInf"
| "js_add NInf b = NInf"
| "js_add a NInf = NInf"

definition js_sub :: "'a::linordered_idom jsnum \<Rightarrow> 'a jsnum \<Rightarrow> 'a jsnum" where
  "js_sub a b = js_add a (js_neg b)"

fun js_mul :: "'a::linordered_idom jsnum \<Rightarrow> 'a jsnum \<Rightarrow> 'a jsnum" where
  "js_mul NaN b = NaN"
| "js_mul a NaN = NaN"
| "js_mul (Fin x) (Fin y) = Fin (x * y)"
| "js_mul (Fin x) PInf = (if x = 0 then NaN else if 0 < x then PInf else NInf)"
| "js_mul (Fin x) NInf = (if x = 0 then NaN else if 0 < x then NInf else PInf)"
| "js_mul PInf (Fin y) = (if y = 0 then NaN else if 0 < y then PInf else NInf)"
| "js_mul NInf (Fin y) = (if y = 0 then NaN else if 0 < y then NInf else PInf)"
| "js_mul PInf PInf = PInf"
| "js_mul PInf NInf = NInf"
| "js_mul NInf PInf = NInf"
| "js_mul NInf NInf = PInf"

fun js_div :: "'a::linordered_field jsnum \<Rightarrow> 'a jsnum \<Rightarrow> 'a jsnum" where
  "js_div NaN b = NaN"
| "js_div a NaN = NaN"
| "js_div (Fin x) (Fin y) =
     (if y = 0 then (if x = 0 then NaN else if 0 < x then PInf else NInf) else Fin (x / y))"
| "js_div (Fin x) PInf = Fin 0"
| "js_div (Fin x) NInf = Fin 0"
| "js_div PInf (Fin y) = (if 0 \<le> y then PInf else NInf)"
| "js_div NInf (Fin y) = (if 0 \<le> y then NInf else PInf)"
| "js_div PInf PInf = NaN"
| "js_div PInf NInf = NaN"
| "js_div NInf PInf = NaN"
| "js_div NInf NInf = NaN"

text \<open>The comparison \<open>a < b\<close>; every comparison with NaN is false.\<close>

fun js_lt :: "'a::linordered_idom jsnum \<Rightarrow> 'a jsnum \<Rightarrow> bool" where
  "js_lt NaN b = False"
| "js_lt a NaN = False"
| "js_lt (Fin x) (Fin y) = (x < y)"
| "js_lt NInf NInf = False"
| "js_lt NInf b = True"
| "js_lt a NInf = False"
| "js_lt PInf b = False"
| "js_lt a PInf = True"

definition js_gt :: "'a::linordered_idom jsnum \<Rightarrow> 'a jsnum \<Rightarrow> bool" where
  "js_gt a b = js_lt b a"

definition js_ge :: "'a::linordered_idom jsnum \<Rightarrow> 'a jsnum \<Rightarrow> bool" where
  "js_ge a b = (a \<noteq> NaN \<and> b \<noteq> NaN \<and> \<not> js_lt a b)"

text \<open>Strict equality \<open>===\<close> on numbers: NaN equals nothing.\<close>

definition js_seq :: "'a jsnum \<Rightarrow> 'a jsnum \<Rightarrow> bool" where
  "js_seq a b = (a \<noteq> NaN \<and> a = b)"

fun js_abs :: "'a::linordered_idom jsnum \<Rightarrow> 'a jsnum" where
  "js_abs (Fin x) = Fin \<bar>x\<bar>"
| "js_abs PInf = PInf"
| "js_abs NInf = PInf"
| "js_abs NaN = NaN"

text \<open>\<open>Math.max\<close> and \<open>Math.min\<close> of two arguments: NaN if either is NaN.\<close>

definition js_max :: "'a::linordered_idom jsnum \<Rightarrow> 'a jsnum \<Rightarrow> 'a jsnum" where
  "js_max a b = (if a = NaN \<or> b = NaN then NaN else if js_lt a b then b else a)"

definition js_min :: "'a::linordered_idom jsnum \<Rightarrow> 'a jsnum \<Rightarrow> 'a jsnum" where
  "js_min a b = (if a = NaN \<or> b = NaN then NaN else if js_lt b a then b else a)"

text \<open>\<open>Math.round\<close>: the nearest whole number, a half rounded up.\<close>

fun js_round :: "real jsnum \<Rightarrow> int jsnum" where
  "js_round (Fin x) = Fin \<lfloor>x + 1 / 2\<rfloor>"
| "js_round PInf = PInf"
| "js_round NInf = NInf"
| "js_round NaN = NaN"

definition of_whole :: "int jsnum \<Rightarrow> real jsnum" where
  "of_whole = map_jsnum real_of_int"

text \<open>Truthiness: 0 and NaN are falsy, and so is an absent value.\<close>

fun truthy :: "'a::zero jsnum \<Rightarrow> bool" where
  "truthy (Fin x) = (x \<noteq> 0)"
| "truthy PInf = True"
| "truthy NInf = True"
| "truthy NaN = False"

text \<open>\<open>a || d\<close> for a number \<open>a\<close> and for a field \<open>a\<close> that may be absent.\<close>

definition js_or :: "'a::zero jsnum \<Rightarrow> 'a jsnum \<Rightarrow> 'a jsnum" where
  "js_or a d = (if truthy a then a else d)"

definition js_or_field :: "'a::zero jsnum option \<Rightarrow> 'a jsnum \<Rightarrow> 'a jsnum" where
  "js_or_field a d = (case a of None \<Rightarrow> d | Some v \<Rightarrow> js_or v d)"

text \<open>The number an optional field contributes to arithmetic (\<open>undefined\<close> is NaN).\<close>

definition num_of :: "'a jsnum option \<Rightarrow> 'a jsnum" where
  "num_of a = (case a of None \<Rightarrow> NaN | Some v \<Rightarrow> v)"

section \<open>JavaScript strings\<close>

text \<open>
  A string is a list of code units, here restricted to the 8-bit range. White space is
  what \<open>parseInt\<close>, \<open>parseFloat\<close> and \<open>Number\<close> strip: tab, line feed, vertical tab,
  form feed, carriage return, space and no-break space.
\<close>

definition StrWhiteSpaceChar :: "char \<Rightarrow> bool" where
  "StrWhiteSpaceChar c = ((of_char c :: nat) \<in> set [9, 10, 11, 12, 13, 32, 160])"

definition digit_val :: "char \<Rightarrow> nat option" where
  "digit_val c =
     (if c \<in> set ''0123456789'' then Some (of_char c - 48)
      else if c \<in> set ''abcdefghijklmnopqrstuvwxyz'' then Some (of_char c - 87)
      else if c \<in> set ''ABCDEFGHIJKLMNOPQRSTUVWXYZ'' then Some (of_char c - 55)
      else None)"

definition is_digit :: "nat \<Rightarrow> char \<Rightarrow> bool" where
  "is_digit R c = (case digit_val c of None \<Rightarrow> False | Some d \<Rightarrow> d < R)"

definition digits_value :: "nat \<Rightarrow> string \<Rightarrow> nat" where
  "digits_value R ds =
     foldl (\<lambda>acc c. acc * R + (case digit_val c of None \<Rightarrow> 0 | Some d \<Rightarrow> d)) 0 ds"

text \<open>\<open>s.split(c)\<close> for a one-character separator.\<close>

fun split_on :: "char \<Rightarrow> string \<Rightarrow> string list" where
  "split_on c [] = [[]]"
| "split_on c (x # xs) =
     (if x = c then [] # split_on c xs
      else (case split_on c xs of [] \<Rightarrow> [[x]] | p # ps \<Rightarrow> (x # p) # ps))"

text \<open>\<open>a[i]\<close>: \<open>undefined\<close> (here \<open>None\<close>) out of range.\<close>

definition js_index :: "'a list \<Rightarrow> nat \<Rightarrow> 'a option" where
  "js_index xs i = (if i < length xs then Some (xs ! i) else None)"

text \<open>\<open>s.replace(c, '')\<close>: the first occurrence of \<open>c\<close> is removed.\<close>

fun remove_first :: "char \<Rightarrow> string \<Rightarrow> string" where
  "remove_first c [] = []"
| "remove_first c (x # xs) = (if x = c then xs else x # remove_first c xs)"

text \<open>The string a value that may be \<open>undefined\<close> converts to.\<close>

definition js_ToString :: "string option \<Rightarrow> string" where
  "js_ToString s = (case s of None \<Rightarrow> ''undefined'' | Some t \<Rightarrow> t)"

text \<open>
  The double nearest to a natural number: its leading 53 bits, rounded to nearest with
  ties to the even significand, and Infinity from \<open>2^1024\<close> on. Numbers up to
  \<open>2^53\<close> are their own doubles.
\<close>

fun bit_length :: "nat \<Rightarrow> nat" where
  "bit_length n = (if n = 0 then 0 else Suc (bit_length (n div 2)))"

declare bit_length.simps [simp del]

definition double_of_nat :: "nat \<Rightarrow> nat jsnum" where
  "double_of_nat n =
     (let e = bit_length n - 53;
          q = n div 2 ^ e;
          r = n mod 2 ^ e;
          q' = (if 2 ^ e < 2 * r \<or> (2 * r = 2 ^ e \<and> odd q) then q + 1 else q);
          v = q' * 2 ^ e
      in if 2 ^ 1024 \<le> v then PInf else Fin v)"

definition signed_whole :: "int \<Rightarrow> nat jsnum \<Rightarrow> int jsnum" where
  "signed_whole sign m =
     (case m of
        Fin v \<Rightarrow> Fin (sign * int v)
      | PInf \<Rightarrow> (if sign < 0 then NInf else PInf)
      | NInf \<Rightarrow> (if sign < 0 then PInf else NInf)
      | NaN \<Rightarrow> NaN)"

text \<open>
  \<open>parseInt(s)\<close> with no radix: leading white space and one sign are skipped, a prefix
  \<open>0x\<close> selects radix 16, and the longest run of digits is read; no digit gives NaN.
  The result is the double nearest to the number read (for more than 20 significant
  decimal digits the language lets an engine round the digits after the 20th down first;
  the model takes the nearest double, as V8 does).
\<close>

definition parseInt :: "string option \<Rightarrow> int jsnum" where
  "parseInt arg =
     (let s1 = dropWhile StrWhiteSpaceChar (js_ToString arg);
          sign = (if take 1 s1 = ''-'' then - 1 else 1);
          s2 = (if take 1 s1 = ''-'' \<or> take 1 s1 = ''+'' then drop 1 s1 else s1);
          hex = (take 2 s2 = ''0x'' \<or> take 2 s2 = ''0X'');
          R = (if hex then 16 else 10);
          s3 = (if hex then drop 2 s2 else s2);
          ds = takeWhile (is_digit R) s3
      in if ds = [] then NaN else signed_whole sign (double_of_nat (digits_value R ds)))"

text \<open>
  The grammar of decimal literals shared by \<open>parseFloat\<close> and \<open>Number\<close>: digits, an
  optional fraction, an optional exponent, or the word Infinity. Each parser returns the
  value of the longest prefix it accepts and the rest of the string.
\<close>

definition decimal_digits :: "string \<Rightarrow> string \<times> string" where
  "decimal_digits s = (takeWhile (is_digit 10) s, dropWhile (is_digit 10) s)"

definition exponent_part :: "string \<Rightarrow> (int \<times> string) option" where
  "exponent_part s =
     (case s of
        [] \<Rightarrow> None
      | c # r \<Rightarrow>
          if c = CHR ''e'' \<or> c = CHR ''E'' then
            (let r1 = (if take 1 r = ''-'' \<or> take 1 r = ''+'' then drop 1 r else r);
                 (es, rest) = decimal_digits r1
             in if es = [] then None
                else Some ((if take 1 r = ''-'' then - 1 else 1) * int (digits_value 10 es), rest))
          else None)"

definition scale10 :: "real \<Rightarrow> int \<Rightarrow> real" where
  "scale10 m e = (if 0 \<le> e then m * 10 ^ nat e else m / 10 ^ nat (- e))"

definition unsigned_decimal :: "string \<Rightarrow> (real jsnum \<times> string) option" where
  "unsigned_decimal s =
     (if take 8 s = ''Infinity'' then Some (PInf, drop 8 s)
      else
        (let (ip, r1) = decimal_digits s;
             (fp, r2) = (if take 1 r1 = ''.'' then decimal_digits (drop 1 r1) else ([], r1))
         in if ip = [] \<and> fp = [] then None
            else
              (let m = real (digits_value 10 ip) + real (digits_value 10 fp) / 10 ^ length fp;
                   (e, r3) = (case exponent_part r2 of None \<Rightarrow> (0, r2) | Some er \<Rightarrow> er)
               in Some (Fin (scale10 m e), r3))))"

definition str_decimal_literal :: "string \<Rightarrow> (real jsnum \<times> string) option" where
  "str_decimal_literal s =
     (if take 1 s = ''-'' then
        (case unsigned_decimal (drop 1 s) of None \<Rightarrow> None | Some (v, r) \<Rightarrow> Some (js_neg v, r))
      else if take 1 s = ''+'' then unsigned_decimal (drop 1 s)
      else unsigned_decimal s)"

definition parseFloat :: "string \<Rightarrow> real jsnum" where
  "parseFloat s =
     (case str_decimal_literal (dropWhile StrWhiteSpaceChar s) of
        None \<Rightarrow> NaN
      | Some (v, r) \<Rightarrow> v)"

definition trim :: "string \<Rightarrow> string" where
  "trim s = rev (dropWhile StrWhiteSpaceChar (rev (dropWhile StrWhiteSpaceChar s)))"

definition non_decimal_radix :: "string \<Rightarrow> nat option" where
  "non_decimal_radix t =
     (if take 2 t = ''0x'' \<or> take 2 t = ''0X'' then Some 16
      else if take 2 t = ''0o'' \<or> take 2 t = ''0O'' then Some 8
      else if take 2 t = ''0b'' \<or> take 2 t = ''0B'' then Some 2
      else None)"

text \<open>
  \<open>Number(s)\<close> on a string: the empty or blank string is 0; otherwise the whole trimmed
  string must be a numeric literal, or the result is NaN.
\<close>

definition Number :: "string \<Rightarrow> real jsnum" where
  "Number s =
     (let t = trim s
      in if t = [] then Fin 0
         else
           (case non_decimal_radix t of
              Some R \<Rightarrow>
                (let ds = drop 2 t
                 in if ds \<noteq> [] \<and> list_all (is_digit R) ds then Fin (real (digits_value R ds))
                    else NaN)
            | None \<Rightarrow>
                (case str_decimal_literal t of
                   None \<Rightarrow> NaN
                 | Some (v, r) \<Rightarrow> if r = [] then v else NaN)))"

text \<open>
  A whole number rendered in a template literal: plain decimal digits (as JavaScript
  prints whole numbers below \<open>10^21\<close>), \<open>NaN\<close>, or a signed \<open>Infinity\<close>.
\<close>

fun string_of_nat :: "nat \<Rightarrow> string" where
  "string_of_nat n =
     (if n < 10 then [''0123456789'' ! n]
      else string_of_nat (n div 10) @ [''0123456789'' ! (n mod 10)])"

fun js_string_of :: "int jsnum \<Rightarrow> string" where
  "js_string_of (Fin i) = (if i < 0 then ''-'' @ string_of_nat (nat (- i)) else string_of_nat (nat i))"
| "js_string_of PInf = ''Infinity''"
| "js_string_of NInf = ''-Infinity''"
| "js_string_of NaN = ''NaN''"

section \<open>JavaScript objects read at a name\<close>

text \<open>
  A plain object that is read at a name it does not hold finds the properties of
  \<open>Object.prototype\<close>: under these twelve names the read gives a function (or, for
  \<open>__proto__\<close>, the prototype object) instead of \<open>undefined\<close>. Such a value is truthy
  and converts to NaN in arithmetic.
\<close>

definition object_prototype_names :: "string list" where
  "object_prototype_names =
     [''constructor'', ''__defineGetter__'', ''__defineSetter__'', ''hasOwnProperty'',
      ''__lookupGetter__'', ''__lookupSetter__'', ''isPrototypeOf'', ''propertyIsEnumerable'',
      ''toString'', ''valueOf'', ''__proto__'', ''toLocaleString'']"

text \<open>The read \<open>obj[name]\<close> finds a property of the prototype.\<close>

definition inherited_read :: "(string \<rightharpoonup> 'a) \<Rightarrow> string \<Rightarrow> bool" where
  "inherited_read obj name = (obj name = None \<and> name \<in> set object_prototype_names)"

section \<open>The statistics parser (stats-parser.js): parseStatValue\<close>

record made_attempts =
  made :: "int jsnum"
  attempts :: "int jsnum"
  percentage :: "real jsnum"

text \<open>
  The values \<open>parseStatValue\<close> receives and returns: a number, a string, the structured
  made-attempts object, or anything else (which it passes through).
\<close>

datatype 'x stat_value =
    SNum "real jsnum"
  | SStr string
  | SMadeAttempts made_attempts
  | SOther 'x

fun parseStatValue :: "'x stat_value \<Rightarrow> 'x stat_value" where
  "parseStatValue (SNum n) = SNum n"
| "parseStatValue (SStr v) =
     (if CHR ''-'' \<in> set v then
        (let parts = split_on (CHR ''-'') v
         in SMadeAttempts
              \<lparr>made = js_or (parseInt (js_index parts 0)) (Fin 0),
               attempts = js_or (parseInt (js_index parts 1)) (Fin 0),
               percentage =
                 (if js_index parts 1 \<noteq> Some ''0''
                  then js_mul (js_div (of_whole (parseInt (js_index parts 0)))
                                      (of_whole (parseInt (js_index parts 1)))) (Fin 100)
                  else Fin 0)\<rparr>)
      else if CHR ''%'' \<in> set v then
        SNum (js_or (parseFloat (remove_first (CHR ''%'') v)) (Fin 0))
      else if CHR '':'' \<in> set v then
        (let ps = map Number (split_on (CHR '':'') v);
             mins = num_of (js_index ps 0);
             secs = num_of (js_index ps 1)
         in SNum (js_add (js_mul mins (Fin 60)) secs))
      else
        (let num = parseFloat v in if num = NaN then SStr v else SNum num))"
| "parseStatValue v = v"

text \<open>A non-empty string of decimal digits.\<close>

definition digit_string :: "string \<Rightarrow> bool" where
  "digit_string s = (s \<noteq> [] \<and> list_all (\<lambda>c. c \<in> set ''0123456789'') s)"

section \<open>The logger\<close>

text \<open>
  Each function returns, next to its result, the calls it made to the logger, in order:
  the level and the message (the context object passed along is not recorded).
\<close>

datatype log_level = Debug | Info | Warn | Error

type_synonym log_entry = "log_level \<times> string"

section \<open>The statistics parser (stats-parser.js): aggregation and ranking\<close>

subsection \<open>The input of aggregateStats\<close>

text \<open>
  The statistics of one team in one game, as \<open>extractTeamStats\<close> delivers them. The
  six counts are numbers here (a count that \<open>parseStatValue\<close> left as a string or as an
  object is outside the model, since \<open>+=\<close> would then concatenate strings). The two
  efficiencies are the made-attempts object or \<open>null\<close>; a value of another type fails
  the \<open>typeof\<close> test of \<open>aggregateStats\<close> and is skipped like \<open>null\<close>.
\<close>

record stat_block =
  stat_passingYards :: "real jsnum option"
  stat_rushingYards :: "real jsnum option"
  stat_totalYards :: "real jsnum option"
  stat_turnovers :: "real jsnum option"
  stat_thirdDownEff :: "made_attempts option"
  stat_redZoneEff :: "made_attempts option"
  stat_possessionTime :: "real jsnum option"
  stat_sacks :: "real jsnum option"

text \<open>
  A game as \<open>aggregateStats\<close> reads it: the statistics by team, in key order, and the
  final scores by team. Either may be absent. The keys of an object are distinct.
\<close>

record game_stats =
  gs_stats :: "(string \<times> stat_block) list option"
  gs_scores :: "(string \<rightharpoonup> int jsnum) option"

subsection \<open>Team aggregates\<close>

text \<open>
  A team's season aggregate: the running totals, the averages and percentages that
  \<open>aggregateStats\<close> adds for a team with games, the win-loss record (the property
  \<open>record\<close>), and the \<open>teamName\<close> that the predictor adds. Every property may be
  absent: the predictor builds an aggregate that holds a \<open>teamName\<close> only. The
  aggregates object is a list of entries in key order, as \<open>Object.keys\<close> enumerates it.
\<close>

record team_aggregate =
  games :: "real jsnum option"
  passingYards :: "real jsnum option"
  rushingYards :: "real jsnum option"
  totalYards :: "real jsnum option"
  turnovers :: "real jsnum option"
  thirdDownAttempts :: "real jsnum option"
  thirdDownConversions :: "real jsnum option"
  redZoneAttempts :: "real jsnum option"
  redZoneScores :: "real jsnum option"
  possessionTime :: "real jsnum option"
  sacks :: "real jsnum option"
  pointsFor :: "real jsnum option"
  pointsAgainst :: "real jsnum option"
  wins :: "int jsnum option"
  losses :: "int jsnum option"
  avgPassingYards :: "real jsnum option"
  avgRushingYards :: "real jsnum option"
  avgTotalYards :: "real jsnum option"
  avgPointsFor :: "real jsnum option"
  avgPointsAgainst :: "real jsnum option"
  thirdDownPct :: "real jsnum option"
  redZonePct :: "real jsnum option"
  record_text :: "string option"
  teamName :: "string option"

type_synonym aggregates = "(string \<times> team_aggregate) list"

subsection \<open>aggregateStats\<close>

text \<open>The keys of the registry \<open>NFL_TEAMS\<close> of constants.js, in the order written there.\<close>

definition NFL_TEAMS :: "string list" where
  "NFL_TEAMS =
     [''Arizona Cardinals'', ''Atlanta Falcons'', ''Baltimore Ravens'', ''Buffalo Bills'',
      ''Carolina Panthers'', ''Chicago Bears'', ''Cincinnati Bengals'', ''Cleveland Browns'',
      ''Dallas Cowboys'', ''Denver Broncos'', ''Detroit Lions'', ''Green Bay Packers'',
      ''Houston Texans'', ''Indianapolis Colts'', ''Jacksonville Jaguars'', ''Kansas City Chiefs'',
      ''Las Vegas Raiders'', ''Los Angeles Chargers'', ''Los Angeles Rams'', ''Miami Dolphins'',
      ''Minnesota Vikings'', ''New England Patriots'', ''New Orleans Saints'', ''New York Giants'',
      ''New York Jets'', ''Philadelphia Eagles'', ''Pittsburgh Steelers'', ''San Francisco 49ers'',
      ''Seattle Seahawks'', ''Tampa Bay Buccaneers'', ''Tennessee Titans'',
      ''Washington Commanders'']"

definition initial_aggregate :: team_aggregate where
  "initial_aggregate =
     \<lparr>games = Some (Fin 0), passingYards = Some (Fin 0), rushingYards = Some (Fin 0),
      totalYards = Some (Fin 0), turnovers = Some (Fin 0), thirdDownAttempts = Some (Fin 0),
      thirdDownConversions = Some (Fin 0), redZoneAttempts = Some (Fin 0),
      redZoneScores = Some (Fin 0), possessionTime = Some (Fin 0), sacks = Some (Fin 0),
      pointsFor = Some (Fin 0), pointsAgainst = Some (Fin 0), wins = Some (Fin 0),
      losses = Some (Fin 0), avgPassingYards = None, avgRushingYards = None,
      avgTotalYards = None, avgPointsFor = None, avgPointsAgainst = None, thirdDownPct = None,
      redZonePct = None, record_text = None, teamName = None\<rparr>"

text \<open>\<open>field += v\<close> and \<open>field++\<close> on a property that holds a number or is absent.\<close>

definition add_to :: "'a::linordered_idom jsnum option \<Rightarrow> 'a jsnum \<Rightarrow> 'a jsnum option" where
  "add_to field v = Some (js_add (num_of field) v)"

text \<open>
  \<open>game.scores[name] || 0\<close> as a summand and \<open>game.scores[name]\<close> as an operand of
  a comparison. A name that the scores lack but \<open>Object.prototype\<close> has finds a
  function, which is truthy and counts as NaN in the averages and in a comparison (the
  running total itself becomes a string then, which the model shows as NaN).
\<close>

definition score_or_0 :: "(string \<rightharpoonup> int jsnum) \<Rightarrow> string \<Rightarrow> int jsnum" where
  "score_or_0 scores name =
     (case scores name of
        Some v \<Rightarrow> js_or v (Fin 0)
      | None \<Rightarrow> if name \<in> set object_prototype_names then NaN else Fin 0)"

definition score_read :: "(string \<rightharpoonup> int jsnum) \<Rightarrow> string \<Rightarrow> int jsnum" where
  "score_read scores name = num_of (scores name)"

text \<open>
  The body of the inner loop of \<open>aggregateStats\<close> for a team that the aggregates hold:
  \<open>teams\<close> are the keys of the game's statistics, \<open>stats\<close> the block of the team and
  \<open>agg\<close> its aggregate, which the source updates in place. An opponent whose name is
  the empty string is falsy and fails the test \<open>if (opponent)\<close>.
\<close>

definition aggregate_team ::
  "game_stats \<Rightarrow> string list \<Rightarrow> string \<Rightarrow> stat_block \<Rightarrow> team_aggregate \<Rightarrow> team_aggregate" where
  "aggregate_team game teams name stats agg =
     (let agg1 = agg
            \<lparr>games := add_to (games agg) (Fin 1),
             passingYards := add_to (passingYards agg) (js_or_field (stat_passingYards stats) (Fin 0)),
             rushingYards := add_to (rushingYards agg) (js_or_field (stat_rushingYards stats) (Fin 0)),
             totalYards := add_to (totalYards agg) (js_or_field (stat_totalYards stats) (Fin 0)),
             turnovers := add_to (turnovers agg) (js_or_field (stat_turnovers stats) (Fin 0)),
             sacks := add_to (sacks agg) (js_or_field (stat_sacks stats) (Fin 0)),
             possessionTime :=
               add_to (possessionTime agg) (js_or_field (stat_possessionTime stats) (Fin 0))\<rparr>;
          agg2 =
            (case stat_thirdDownEff stats of
               None \<Rightarrow> agg1
             | Some eff \<Rightarrow> agg1
                 \<lparr>thirdDownConversions :=
                    add_to (thirdDownConversions agg1) (of_whole (js_or (made eff) (Fin 0))),
                  thirdDownAttempts :=
                    add_to (thirdDownAttempts agg1) (of_whole (js_or (attempts eff) (Fin 0)))\<rparr>);
          agg3 =
            (case stat_redZoneEff stats of
               None \<Rightarrow> agg2
             | Some eff \<Rightarrow> agg2
                 \<lparr>redZoneScores :=
                    add_to (redZoneScores agg2) (of_whole (js_or (made eff) (Fin 0))),
                  redZoneAttempts :=
                    add_to (redZoneAttempts agg2) (of_whole (js_or (attempts eff) (Fin 0)))\<rparr>)
      in case gs_scores game of
           None \<Rightarrow> agg3
         | Some scores \<Rightarrow>
             (let agg4 = agg3
                    \<lparr>pointsFor :=
                       add_to (pointsFor agg3) (of_whole (score_or_0 scores name))\<rparr>
              in case find (\<lambda>t. t \<noteq> name) teams of
                   None \<Rightarrow> agg4
                 | Some opponent \<Rightarrow>
                     if opponent = [] then agg4
                     else
                       (let agg5 = agg4
                              \<lparr>pointsAgainst :=
                                 add_to (pointsAgainst agg4) (of_whole (score_or_0 scores opponent))\<rparr>
                        in if js_gt (score_read scores name) (score_read scores opponent)
                           then agg5\<lparr>wins := add_to (wins agg5) (Fin 1)\<rparr>
                           else if js_lt (score_read scores name) (score_read scores opponent)
                           then agg5\<lparr>losses := add_to (losses agg5) (Fin 1)\<rparr>
                           else agg5)))"

text \<open>\<open>teamAggregates[name] = f(teamAggregates[name])\<close> for a key of the object.\<close>

definition update_entry :: "string \<Rightarrow> (team_aggregate \<Rightarrow> team_aggregate) \<Rightarrow> aggregates \<Rightarrow> aggregates" where
  "update_entry name f aggs = map (\<lambda>(k, a). if k = name then (k, f a) else (k, a)) aggs"

text \<open>
  One round of the inner loop. A team that the aggregates do not hold is logged and
  skipped. A name that the aggregates lack but \<open>Object.prototype\<close> has finds a built-in
  object there, which passes the test without a warning and takes the updates; the
  returned aggregates are the same, and the model does not follow writes to built-in
  objects.
\<close>

definition aggregate_entry ::
  "game_stats \<Rightarrow> string list \<Rightarrow> aggregates \<times> log_entry list \<Rightarrow> string \<times> stat_block
     \<Rightarrow> aggregates \<times> log_entry list" where
  "aggregate_entry game teams state entry =
     (case map_of (fst state) (fst entry) of
        None \<Rightarrow>
          if fst entry \<in> set object_prototype_names then state
          else (fst state, snd state @ [(Warn, ''Unknown team in game stats'')])
      | Some agg \<Rightarrow>
          (update_entry (fst entry) (aggregate_team game teams (fst entry) (snd entry)) (fst state),
           snd state))"

definition aggregate_game ::
  "aggregates \<times> log_entry list \<Rightarrow> game_stats \<Rightarrow> aggregates \<times> log_entry list" where
  "aggregate_game state game =
     (let entries = (case gs_stats game of None \<Rightarrow> [] | Some es \<Rightarrow> es)
      in foldl (aggregate_entry game (map fst entries)) state entries)"

text \<open>A win or loss count in the template literal of the record.\<close>

definition count_text :: "int jsnum option \<Rightarrow> string" where
  "count_text n = (case n of None \<Rightarrow> ''undefined'' | Some w \<Rightarrow> js_string_of w)"

text \<open>The last loop: the averages and percentages of a team with games, and the record.\<close>

definition finish_aggregate :: "team_aggregate \<Rightarrow> team_aggregate" where
  "finish_aggregate agg =
     (let agg1 =
            (if js_gt (num_of (games agg)) (Fin 0) then agg
               \<lparr>avgPassingYards := Some (js_div (num_of (passingYards agg)) (num_of (games agg))),
                avgRushingYards := Some (js_div (num_of (rushingYards agg)) (num_of (games agg))),
                avgTotalYards := Some (js_div (num_of (totalYards agg)) (num_of (games agg))),
                avgPointsFor := Some (js_div (num_of (pointsFor agg)) (num_of (games agg))),
                avgPointsAgainst := Some (js_div (num_of (pointsAgainst agg)) (num_of (games agg))),
                thirdDownPct :=
                  Some (if js_gt (num_of (thirdDownAttempts agg)) (Fin 0)
                        then js_mul (js_div (num_of (thirdDownConversions agg))
                                            (num_of (thirdDownAttempts agg))) (Fin 100)
                        else Fin 0),
                redZonePct :=
                  Some (if js_gt (num_of (redZoneAttempts agg)) (Fin 0)
                        then js_mul (js_div (num_of (redZoneScores agg))
                                            (num_of (redZoneAttempts agg))) (Fin 100)
                        else Fin 0)\<rparr>
             else agg)
      in agg1\<lparr>record_text := Some (count_text (wins agg1) @ ''-'' @ count_text (losses agg1))\<rparr>)"

definition aggregateStats :: "game_stats list \<Rightarrow> aggregates \<times> log_entry list" where
  "aggregateStats gameStats =
     (let initial = map (\<lambda>name. (name, initial_aggregate)) NFL_TEAMS;
          state = foldl aggregate_game (initial, []) gameStats
      in (map (\<lambda>(k, a). (k, finish_aggregate a)) (fst state), snd state))"

subsection \<open>calculateRankings\<close>

text \<open>
  \<open>teamAggregates[team].f\<close> as a number. The team is always a key of the object where
  the source reads this, so the first case does not arise there.
\<close>

definition field_of :: "aggregates \<Rightarrow> (team_aggregate \<Rightarrow> real jsnum option) \<Rightarrow> string \<Rightarrow> real jsnum" where
  "field_of aggs f team = (case map_of aggs team of None \<Rightarrow> NaN | Some a \<Rightarrow> num_of (f a))"

definition has_games :: "aggregates \<Rightarrow> string \<Rightarrow> bool" where
  "has_games aggs team = js_gt (field_of aggs games team) (Fin 0)"

text \<open>
  \<open>Array.prototype.sort\<close> with a comparator. The language fixes the result for a
  consistent comparator only: one that never returns NaN and whose results \<open>< 0\<close>,
  \<open>= 0\<close> and \<open>> 0\<close> are reflexive, symmetric and transitive as listed in the
  definition. The result is then the stable sort, computed here by insertion. For any
  other comparator the order is the engine's choice, which is the parameter \<open>engine\<close>.
\<close>

definition consistent_comparator :: "('a \<Rightarrow> 'a \<Rightarrow> real jsnum) \<Rightarrow> 'a list \<Rightarrow> bool" where
  "consistent_comparator cmp xs =
     list_all (\<lambda>a. list_all (\<lambda>b. list_all (\<lambda>c.
         cmp a b \<noteq> NaN \<and>
         js_seq (cmp a a) (Fin 0) \<and>
         (if js_seq (cmp a b) (Fin 0) then js_seq (cmp b a) (Fin 0) else True) \<and>
         (if js_seq (cmp a b) (Fin 0) \<and> js_seq (cmp b c) (Fin 0)
          then js_seq (cmp a c) (Fin 0) else True) \<and>
         (if js_lt (cmp a b) (Fin 0) \<and> js_lt (cmp b c) (Fin 0)
          then js_lt (cmp a c) (Fin 0) else True) \<and>
         (if js_gt (cmp a b) (Fin 0) \<and> js_gt (cmp b c) (Fin 0)
          then js_gt (cmp a c) (Fin 0) else True)) xs) xs) xs"

fun insert_by :: "('a \<Rightarrow> 'a \<Rightarrow> real jsnum) \<Rightarrow> 'a \<Rightarrow> 'a list \<Rightarrow> 'a list" where
  "insert_by cmp x [] = [x]"
| "insert_by cmp x (y # ys) =
     (if js_gt (cmp x y) (Fin 0) then y # insert_by cmp x ys else x # y # ys)"

definition js_sort ::
  "(('a \<Rightarrow> 'a \<Rightarrow> real jsnum) \<Rightarrow> 'a list \<Rightarrow> 'a list) \<Rightarrow> ('a \<Rightarrow> 'a \<Rightarrow> real jsnum) \<Rightarrow> 'a list
     \<Rightarrow> 'a list" where
  "js_sort engine cmp xs =
     (if consistent_comparator cmp xs then foldr (insert_by cmp) xs [] else engine cmp xs)"

text \<open>
  The \<open>reduce\<close> that stores \<open>index + 1\<close> under each team. An assignment to the name
  \<open>__proto__\<close> of a plain object stores nothing when the value is a number.
\<close>

fun assign_ranks :: "string list \<Rightarrow> nat \<Rightarrow> (string \<rightharpoonup> nat) \<Rightarrow> (string \<rightharpoonup> nat)" where
  "assign_ranks [] index acc = acc"
| "assign_ranks (team # teams) index acc =
     assign_ranks teams (index + 1)
       (if team = ''__proto__'' then acc else acc(team \<mapsto> index + 1))"

definition rank_teams ::
  "((string \<Rightarrow> string \<Rightarrow> real jsnum) \<Rightarrow> string list \<Rightarrow> string list) \<Rightarrow> aggregates
     \<Rightarrow> (string \<Rightarrow> string \<Rightarrow> real jsnum) \<Rightarrow> (string \<rightharpoonup> nat)" where
  "rank_teams engine aggs cmp =
     assign_ranks (js_sort engine cmp (filter (has_games aggs) (map fst aggs))) 0 Map.empty"

text \<open>
  The rankings object. \<open>calculateRankings\<close> fills its four tables; a rankings object
  from elsewhere (the prediction context takes it from a cache file) may lack any.
\<close>

record rankings =
  offensive :: "(string \<rightharpoonup> nat) option"
  defensive :: "(string \<rightharpoonup> nat) option"
  rushOffense :: "(string \<rightharpoonup> nat) option"
  passDefense :: "(string \<rightharpoonup> nat) option"

definition calculateRankings ::
  "((string \<Rightarrow> string \<Rightarrow> real jsnum) \<Rightarrow> string list \<Rightarrow> string list) \<Rightarrow> aggregates \<Rightarrow> rankings" where
  "calculateRankings engine aggs =
     \<lparr>offensive = Some (rank_teams engine aggs
        (\<lambda>a b. js_sub (field_of aggs avgTotalYards b) (field_of aggs avgTotalYards a))),
      defensive = Some (rank_teams engine aggs
        (\<lambda>a b. js_sub (field_of aggs avgPointsAgainst a) (field_of aggs avgPointsAgainst b))),
      rushOffense = Some (rank_teams engine aggs
        (\<lambda>a b. js_sub (field_of aggs avgRushingYards b) (field_of aggs avgRushingYards a))),
      passDefense = Some (rank_teams engine aggs
        (\<lambda>a b. js_sub (field_of aggs avgPassingYards a) (field_of aggs avgPassingYards b)))\<rparr>"

text \<open>
  The key of the pass-defense ranking in the words of the specification: the passing
  yards a team allowed per game, that is, the passing yards of its opponent in each of
  its games, over the number of its games. This definition follows the specification
  and no code; it is what the ranking of the source is compared with.
\<close>

definition spec_passing_yards_allowed :: "game_stats \<Rightarrow> string \<Rightarrow> real jsnum" where
  "spec_passing_yards_allowed game team =
     (case gs_stats game of
        None \<Rightarrow> Fin 0
      | Some entries \<Rightarrow>
          (case find (\<lambda>e. fst e \<noteq> team) entries of
             None \<Rightarrow> Fin 0
           | Some opponent \<Rightarrow> js_or_field (stat_passingYards (snd opponent)) (Fin 0)))"

definition spec_played :: "game_stats \<Rightarrow> string \<Rightarrow> bool" where
  "spec_played game team =
     (case gs_stats game of None \<Rightarrow> False | Some entries \<Rightarrow> team \<in> set (map fst entries))"

definition spec_passing_yards_allowed_per_game :: "game_stats list \<Rightarrow> string \<Rightarrow> real jsnum" where
  "spec_passing_yards_allowed_per_game gameStats team =
     (let played = filter (\<lambda>game. spec_played game team) gameStats
      in js_div (foldl js_add (Fin 0) (map (\<lambda>game. spec_passing_yards_allowed game team) played))
                (Fin (real (length played))))"

section \<open>The efficiency model (efficiency.js)\<close>

definition HOME_FIELD_ADVANTAGE :: real where "HOME_FIELD_ADVANTAGE = 5 / 2"
definition MATCHUP_WEIGHT :: real where "MATCHUP_WEIGHT = 15 / 100"
definition DEFAULT_THIRD_DOWN_PCT :: real where "DEFAULT_THIRD_DOWN_PCT = 40"
definition DEFAULT_RED_ZONE_PCT :: real where "DEFAULT_RED_ZONE_PCT = 50"
definition ELO_BASE_RATING :: real where "ELO_BASE_RATING = 1500"
definition CONFIDENCE_HIGH_THRESHOLD :: real where "CONFIDENCE_HIGH_THRESHOLD = 100"
definition CONFIDENCE_MEDIUM_THRESHOLD :: real where "CONFIDENCE_MEDIUM_THRESHOLD = 50"

datatype js_error = TypeError

datatype confidence = Low | Medium | High

record league_average =
  league_avgTotalYards :: "real jsnum"
  league_avgPointsFor :: "real jsnum"
  league_avgPointsAgainst :: "real jsnum"
  league_avgPassingYards :: "real jsnum"
  league_avgRushingYards :: "real jsnum"

text \<open>
  \<open>x.toFixed(d)\<close>: \<open>d\<close> decimals, the nearest such number, the larger of two equally
  near (values from \<open>10^21\<close> on, which JavaScript prints with an exponent, are outside
  the model). The number rounded is the exact one; the program rounds the double that
  stands for it, so the last digit can differ where the exact number lies halfway
  between two candidates. No theorem below states a string that \<open>toFixed\<close> returns.
\<close>

definition pad_zeros :: "nat \<Rightarrow> string \<Rightarrow> string" where
  "pad_zeros n s = replicate (n - length s) (CHR ''0'') @ s"

fun toFixed :: "nat \<Rightarrow> real jsnum \<Rightarrow> string" where
  "toFixed d (Fin x) =
     (let ds = pad_zeros (d + 1) (string_of_nat (nat \<lfloor>\<bar>x\<bar> * 10 ^ d + 1 / 2\<rfloor>));
          body = (if d = 0 then ds
                  else take (length ds - d) ds @ ''.'' @ drop (length ds - d) ds)
      in if x < 0 then ''-'' @ body else body)"
| "toFixed d PInf = ''Infinity''"
| "toFixed d NInf = ''-Infinity''"
| "toFixed d NaN = ''NaN''"

definition calculateEfficiencyRating :: "team_aggregate option \<Rightarrow> league_average \<Rightarrow> real jsnum" where
  "calculateEfficiencyRating teamStats leagueAverage =
     (case teamStats of
        None \<Rightarrow> Fin ELO_BASE_RATING
      | Some ts \<Rightarrow>
          if js_seq (num_of (games ts)) (Fin 0) then Fin ELO_BASE_RATING
          else
            (let offensiveEfficiency =
                   js_div (num_of (avgTotalYards ts)) (league_avgTotalYards leagueAverage);
                 defensiveEfficiency =
                   js_div (league_avgPointsAgainst leagueAverage) (num_of (avgPointsAgainst ts));
                 scoringEfficiency =
                   js_div (num_of (avgPointsFor ts)) (league_avgPointsFor leagueAverage)
             in js_mul
                  (js_add
                     (js_add (js_mul offensiveEfficiency (Fin (35 / 100)))
                             (js_mul defensiveEfficiency (Fin (35 / 100))))
                     (js_mul scoringEfficiency (Fin (30 / 100))))
                  (Fin 1000)))"

text \<open>
  \<open>ranks[name] || 16\<close> as an operand of the subtraction; an absent name is the key
  \<open>undefined\<close>. A name that the table lacks but \<open>Object.prototype\<close> has finds a
  function there, which \<open>||\<close> keeps and the subtraction turns into NaN.
\<close>

definition rank_or_16 :: "(string \<rightharpoonup> nat) \<Rightarrow> string option \<Rightarrow> real jsnum" where
  "rank_or_16 ranks name =
     (case ranks (js_ToString name) of
        None \<Rightarrow> if js_ToString name \<in> set object_prototype_names then NaN else Fin 16
      | Some r \<Rightarrow> if r = 0 then Fin 16 else Fin (real r))"

text \<open>
  Reading \<open>rankings.rushOffense\<close> throws when \<open>rankings\<close> is absent, and indexing the
  table throws when the rankings object lacks it; likewise for \<open>passDefense\<close>.
\<close>

definition calculateMatchupAdvantage ::
  "team_aggregate \<Rightarrow> team_aggregate \<Rightarrow> rankings option \<Rightarrow> js_error + real jsnum" where
  "calculateMatchupAdvantage teamStats opponentStats rankings =
     (case rankings of
        None \<Rightarrow> Inl TypeError
      | Some r \<Rightarrow>
          (case rushOffense r of
             None \<Rightarrow> Inl TypeError
           | Some rushTable \<Rightarrow>
               (case passDefense r of
                  None \<Rightarrow> Inl TypeError
                | Some passTable \<Rightarrow>
                    (let rushOffenseRank = rank_or_16 rushTable (teamName teamStats);
                         oppPassDefenseRank = rank_or_16 passTable (teamName opponentStats);
                         rushAdvantage =
                           js_mul (js_sub oppPassDefenseRank rushOffenseRank) (Fin MATCHUP_WEIGHT)
                     in Inr (js_add (Fin 0) rushAdvantage)))))"

definition calculateSituationalAdjustment :: "team_aggregate \<Rightarrow> team_aggregate \<Rightarrow> real jsnum" where
  "calculateSituationalAdjustment teamStats opponentStats =
     (let teamThirdDown = js_or_field (thirdDownPct teamStats) (Fin DEFAULT_THIRD_DOWN_PCT);
          oppThirdDown = js_or_field (thirdDownPct opponentStats) (Fin DEFAULT_THIRD_DOWN_PCT);
          thirdDownDiff = js_sub teamThirdDown oppThirdDown;
          adjustment1 = js_add (Fin 0) (js_mul thirdDownDiff (Fin (5 / 100)));
          teamRedZone = js_or_field (redZonePct teamStats) (Fin DEFAULT_RED_ZONE_PCT);
          oppRedZone = js_or_field (redZonePct opponentStats) (Fin DEFAULT_RED_ZONE_PCT);
          redZoneDiff = js_sub teamRedZone oppRedZone
      in js_add adjustment1 (js_mul redZoneDiff (Fin (3 / 100))))"

record efficiency_details =
  homeMatchupAdv :: string
  awayMatchupAdv :: string
  homeSituationalAdj :: string
  awaySituationalAdj :: string

record efficiency_prediction =
  eff_homeTeam :: "string option"
  eff_awayTeam :: "string option"
  eff_predictedWinner :: "string option"
  eff_predictedScore :: string
  eff_confidence :: confidence
  eff_scoreDifference :: "int jsnum"
  eff_homeEfficiency :: string
  eff_awayEfficiency :: string
  eff_details :: efficiency_details

text \<open>
  The body of the efficiency model's \<open>predictGame\<close> once the guard has passed and both
  matchup advantages have been computed: the score projection and the result object.
  The sums before \<open>Math.round\<close> are exact here; where an exact sum ends in one half,
  the program's doubles may fall just below it and round the other way.
\<close>

definition efficiency_projection ::
  "team_aggregate \<Rightarrow> team_aggregate \<Rightarrow> league_average \<Rightarrow> real jsnum \<Rightarrow> real jsnum
     \<Rightarrow> efficiency_prediction" where
  "efficiency_projection home away league homeMatchup awayMatchup =
     (let homeEfficiency = calculateEfficiencyRating (Some home) league;
          awayEfficiency = calculateEfficiencyRating (Some away) league;
          homeSituational = calculateSituationalAdjustment home away;
          awaySituational = calculateSituationalAdjustment away home;
          homeScore0 = js_or (league_avgPointsFor league) (Fin 23);
          awayScore0 = js_or (league_avgPointsFor league) (Fin 23);
          homeScore1 = js_add homeScore0
            (js_mul (js_sub (num_of (avgPointsFor home)) (league_avgPointsFor league)) (Fin (1 / 2)));
          awayScore1 = js_add awayScore0
            (js_mul (js_sub (num_of (avgPointsFor away)) (league_avgPointsFor league)) (Fin (1 / 2)));
          homeScore2 = js_sub homeScore1
            (js_mul (js_sub (num_of (avgPointsAgainst away)) (league_avgPointsAgainst league)) (Fin (3 / 10)));
          awayScore2 = js_sub awayScore1
            (js_mul (js_sub (num_of (avgPointsAgainst home)) (league_avgPointsAgainst league)) (Fin (3 / 10)));
          homeScore3 = js_add homeScore2 (Fin HOME_FIELD_ADVANTAGE);
          homeScore4 = js_add homeScore3 homeMatchup;
          awayScore4 = js_add awayScore2 awayMatchup;
          homeScore5 = js_add homeScore4 homeSituational;
          awayScore5 = js_add awayScore4 awaySituational;
          homeScore = js_round (js_max (Fin 0) homeScore5);
          awayScore = js_round (js_max (Fin 0) awayScore5);
          scoreDiff = js_abs (js_sub homeScore awayScore);
          predictedWinner = (if js_gt homeScore awayScore then teamName home else teamName away);
          confidence = (if js_ge scoreDiff (Fin 10) then High
                        else if js_ge scoreDiff (Fin 6) then Medium else Low)
      in \<lparr>eff_homeTeam = teamName home,
          eff_awayTeam = teamName away,
          eff_predictedWinner = predictedWinner,
          eff_predictedScore = js_string_of homeScore @ ''-'' @ js_string_of awayScore,
          eff_confidence = confidence,
          eff_scoreDifference = scoreDiff,
          eff_homeEfficiency = toFixed 0 homeEfficiency,
          eff_awayEfficiency = toFixed 0 awayEfficiency,
          eff_details =
            \<lparr>homeMatchupAdv = toFixed 1 homeMatchup,
             awayMatchupAdv = toFixed 1 awayMatchup,
             homeSituationalAdj = toFixed 1 homeSituational,
             awaySituationalAdj = toFixed 1 awaySituational\<rparr>\<rparr>)"

text \<open>
  \<open>predictGame\<close> of the efficiency model. Each of the first three arguments may be
  absent, which the guard answers with \<open>null\<close> (here \<open>Inr None\<close>) and an error in the
  log; the rankings may be absent or incomplete too, and then
  \<open>calculateMatchupAdvantage\<close> throws.
\<close>

definition efficiency_predictGame ::
  "team_aggregate option \<Rightarrow> team_aggregate option \<Rightarrow> league_average option \<Rightarrow> rankings option
     \<Rightarrow> (js_error + efficiency_prediction option) \<times> log_entry list" where
  "efficiency_predictGame homeTeamStats awayTeamStats leagueAverage rankings =
     (case (homeTeamStats, awayTeamStats, leagueAverage) of
        (Some home, Some away, Some league) \<Rightarrow>
          (case calculateMatchupAdvantage home away rankings of
             Inl e \<Rightarrow> (Inl e, [])
           | Inr homeMatchup \<Rightarrow>
               (case calculateMatchupAdvantage away home rankings of
                  Inl e \<Rightarrow> (Inl e, [])
                | Inr awayMatchup \<Rightarrow>
                    (Inr (Some (efficiency_projection home away league homeMatchup awayMatchup)), [])))
      | _ \<Rightarrow> (Inr None, [(Error, ''Missing required stats for efficiency prediction'')]))"

text \<open>The accumulator of the \<open>reduce\<close> in \<open>calculateLeagueAverages\<close>.\<close>

record league_totals =
  sum_totalYards :: "real jsnum"
  sum_pointsFor :: "real jsnum"
  sum_pointsAgainst :: "real jsnum"
  sum_passingYards :: "real jsnum"
  sum_rushingYards :: "real jsnum"

definition add_team_totals :: "aggregates \<Rightarrow> league_totals \<Rightarrow> string \<Rightarrow> league_totals" where
  "add_team_totals teamAggregates acc team =
     \<lparr>sum_totalYards = js_add (sum_totalYards acc) (field_of teamAggregates avgTotalYards team),
      sum_pointsFor = js_add (sum_pointsFor acc) (field_of teamAggregates avgPointsFor team),
      sum_pointsAgainst = js_add (sum_pointsAgainst acc) (field_of teamAggregates avgPointsAgainst team),
      sum_passingYards = js_add (sum_passingYards acc) (field_of teamAggregates avgPassingYards team),
      sum_rushingYards = js_add (sum_rushingYards acc) (field_of teamAggregates avgRushingYards team)\<rparr>"

definition calculateLeagueAverages :: "aggregates \<Rightarrow> league_average \<times> log_entry list" where
  "calculateLeagueAverages teamAggregates =
     (let teams = map fst teamAggregates;
          teamsWithGames = filter (has_games teamAggregates) teams
      in if length teamsWithGames = 0 then
           (\<lparr>league_avgTotalYards = Fin 350,
             league_avgPointsFor = Fin 23,
             league_avgPointsAgainst = Fin 23,
             league_avgPassingYards = Fin 230,
             league_avgRushingYards = Fin 120\<rparr>,
            [(Warn, ''No teams with games played for league averages'')])
         else
           (let totals = foldl (add_team_totals teamAggregates)
                  \<lparr>sum_totalYards = Fin 0, sum_pointsFor = Fin 0, sum_pointsAgainst = Fin 0,
                   sum_passingYards = Fin 0, sum_rushingYards = Fin 0\<rparr> teamsWithGames;
                count = Fin (real (length teamsWithGames))
            in (\<lparr>league_avgTotalYards = js_div (sum_totalYards totals) count,
                 league_avgPointsFor = js_div (sum_pointsFor totals) count,
                 league_avgPointsAgainst = js_div (sum_pointsAgainst totals) count,
                 league_avgPassingYards = js_div (sum_passingYards totals) count,
                 league_avgRushingYards = js_div (sum_rushingYards totals) count\<rparr>, [])))"

section \<open>The Elo model (elo.js): predictGame\<close>

text \<open>\<open>Math.pow(10, x)\<close>.\<close>

fun js_pow10 :: "real jsnum \<Rightarrow> real jsnum" where
  "js_pow10 (Fin x) = Fin (10 powr x)"
| "js_pow10 PInf = PInf"
| "js_pow10 NInf = Fin 0"
| "js_pow10 NaN = NaN"

definition calculateWinProbability :: "real jsnum \<Rightarrow> real jsnum \<Rightarrow> real jsnum" where
  "calculateWinProbability ratingA ratingB =
     js_div (Fin 1) (js_add (Fin 1) (js_pow10 (js_div (js_sub ratingB ratingA) (Fin 400))))"

record elo_prediction =
  elo_homeTeam :: string
  elo_awayTeam :: string
  elo_predictedWinner :: string
  elo_homeWinProbability :: "real jsnum"
  elo_awayWinProbability :: "real jsnum"
  elo_confidence :: confidence
  elo_eloDifference :: "real jsnum"
  elo_predictedScore :: string
  elo_homeRating :: string
  elo_awayRating :: string

definition truthy_field :: "real jsnum option \<Rightarrow> bool" where
  "truthy_field a = (case a of None \<Rightarrow> False | Some v \<Rightarrow> truthy v)"

text \<open>
  The ratings table may be absent, and then reading \<open>ratings[homeTeam]\<close> throws; a team
  without a rating (or rated 0 or NaN) gives \<open>null\<close>. A rating found through the
  prototype is a function: it passes the guard, and the call \<open>toFixed\<close> on it in the
  result object throws.
\<close>

definition elo_predictGame ::
  "(string \<rightharpoonup> real jsnum) option \<Rightarrow> string \<Rightarrow> string
     \<Rightarrow> (js_error + elo_prediction option) \<times> log_entry list" where
  "elo_predictGame ratings homeTeam awayTeam =
     (case ratings of
        None \<Rightarrow> (Inl TypeError, [])
      | Some r \<Rightarrow>
          if \<not> (truthy_field (r homeTeam) \<or> inherited_read r homeTeam) \<or>
             \<not> (truthy_field (r awayTeam) \<or> inherited_read r awayTeam) then
            (Inr None, [(Error, ''Cannot predict: team ratings not found'')])
          else if inherited_read r homeTeam \<or> inherited_read r awayTeam then (Inl TypeError, [])
          else
            (let homeRating = num_of (r homeTeam);
                 awayRating = num_of (r awayTeam);
                 adjustedHomeRating = js_add homeRating (js_mul (Fin HOME_FIELD_ADVANTAGE) (Fin 25));
                 homeWinProb = calculateWinProbability adjustedHomeRating awayRating;
                 awayWinProb = js_sub (Fin 1) homeWinProb;
                 predictedWinner = (if js_gt homeWinProb (Fin (1 / 2)) then homeTeam else awayTeam);
                 eloDiff = js_abs (js_sub adjustedHomeRating awayRating);
                 confidence = (if js_ge eloDiff (Fin CONFIDENCE_HIGH_THRESHOLD) then High
                               else if js_ge eloDiff (Fin CONFIDENCE_MEDIUM_THRESHOLD) then Medium
                               else Low);
                 avgScore = Fin 23;
                 ratingDiff = js_sub adjustedHomeRating awayRating;
                 scoreDiff = js_div ratingDiff (Fin 25);
                 homeScore = js_round (js_add avgScore (js_div scoreDiff (Fin 2)));
                 awayScore = js_round (js_sub avgScore (js_div scoreDiff (Fin 2)))
             in (Inr (Some
                   \<lparr>elo_homeTeam = homeTeam,
                    elo_awayTeam = awayTeam,
                    elo_predictedWinner = predictedWinner,
                    elo_homeWinProbability = js_mul homeWinProb (Fin 100),
                    elo_awayWinProbability = js_mul awayWinProb (Fin 100),
                    elo_confidence = confidence,
                    elo_eloDifference = eloDiff,
                    elo_predictedScore =
                      js_string_of (js_max (Fin 0) homeScore) @ ''-'' @
                      js_string_of (js_max (Fin 0) awayScore),
                    elo_homeRating = toFixed 0 homeRating,
                    elo_awayRating = toFixed 0 awayRating\<rparr>), [])))"

section \<open>The unified predictor (predictor.js)\<close>

record game =
  game_id :: string
  game_date :: string
  game_homeTeam :: string
  game_awayTeam :: string

text \<open>The context object; each of its four properties may be absent.\<close>

record predict_context =
  ctx_eloRatings :: "(string \<rightharpoonup> real jsnum) option"
  ctx_teamStats :: "aggregates option"
  ctx_leagueAverage :: "league_average option"
  ctx_rankings :: "rankings option"

record elo_breakdown =
  eb_winner :: string
  eb_score :: string
  eb_confidence :: confidence
  eb_homeWinProb :: string
  eb_awayWinProb :: string

record efficiency_breakdown =
  fb_winner :: "string option"
  fb_score :: string
  fb_confidence :: confidence

record models =
  models_elo :: elo_breakdown
  models_efficiency :: efficiency_breakdown

text \<open>
  A prediction record. The last five fields are absent until \<open>checkPrediction\<close> adds
  them.
\<close>

record prediction =
  p_id :: string
  p_gameDate :: string
  p_homeTeam :: string
  p_awayTeam :: string
  p_predictedWinner :: string
  p_predictedScore :: string
  p_spread :: "int jsnum"
  p_confidence :: confidence
  p_timestamp :: string
  p_checked :: bool
  p_models :: models
  p_correct :: "bool option"
  p_actualWinner :: "string option"
  p_actualScore :: "string option"
  p_scoreError :: "real jsnum option"
  p_checkedAt :: "string option"

text \<open>\<open>{ ...stats, teamName: name }\<close>, where \<open>stats\<close> may be \<open>undefined\<close>.\<close>

definition with_teamName :: "team_aggregate option \<Rightarrow> string \<Rightarrow> team_aggregate" where
  "with_teamName stats name =
     (case stats of
        None \<Rightarrow>
          \<lparr>games = None, passingYards = None, rushingYards = None, totalYards = None,
           turnovers = None, thirdDownAttempts = None, thirdDownConversions = None,
           redZoneAttempts = None, redZoneScores = None, possessionTime = None, sacks = None,
           pointsFor = None, pointsAgainst = None, wins = None, losses = None,
           avgPassingYards = None, avgRushingYards = None, avgTotalYards = None,
           avgPointsFor = None, avgPointsAgainst = None, thirdDownPct = None, redZonePct = None,
           record_text = None, teamName = Some name\<rparr>
      | Some a \<Rightarrow> a\<lparr>teamName := Some name\<rparr>)"

definition confidenceLevels :: "confidence \<Rightarrow> int jsnum" where
  "confidenceLevels c = (case c of High \<Rightarrow> Fin 3 | Medium \<Rightarrow> Fin 2 | Low \<Rightarrow> Fin 1)"

text \<open>\<open>const [home, away] = score.split('-').map(Number)\<close>.\<close>

definition parse_score :: "string \<Rightarrow> real jsnum \<times> real jsnum" where
  "parse_score score =
     (let ps = map Number (split_on (CHR ''-'') score)
      in (num_of (js_index ps 0), num_of (js_index ps 1)))"

text \<open>
  The second half of \<open>predict\<close>, reached when both models have answered: the blend of
  the scores, the winner, the confidence and the prediction record. \<open>now\<close> is the
  reading of the clock.
\<close>

definition combine_predictions ::
  "game \<Rightarrow> elo_prediction \<Rightarrow> efficiency_prediction \<Rightarrow> string \<Rightarrow> prediction" where
  "combine_predictions g eloPrediction efficiencyPrediction now =
     (let homeTeam = game_homeTeam g;
          awayTeam = game_awayTeam g;
          eloWeight = Fin (6 / 10);
          efficiencyWeight = Fin (4 / 10);
          eloScores = parse_score (elo_predictedScore eloPrediction);
          effScores = parse_score (eff_predictedScore efficiencyPrediction);
          finalHomeScore =
            js_round (js_add (js_mul (fst eloScores) eloWeight) (js_mul (fst effScores) efficiencyWeight));
          finalAwayScore =
            js_round (js_add (js_mul (snd eloScores) eloWeight) (js_mul (snd effScores) efficiencyWeight));
          finalWinner = (if js_gt finalHomeScore finalAwayScore then homeTeam else awayTeam);
          eloConfLevel = confidenceLevels (elo_confidence eloPrediction);
          effConfLevel = confidenceLevels (eff_confidence efficiencyPrediction);
          finalConfLevel = js_min eloConfLevel effConfLevel;
          finalConfidence =
            (if js_seq finalConfLevel (Fin 3) then High
             else if js_seq finalConfLevel (Fin 2) then Medium else Low)
      in \<lparr>p_id = game_id g,
          p_gameDate = game_date g,
          p_homeTeam = homeTeam,
          p_awayTeam = awayTeam,
          p_predictedWinner = finalWinner,
          p_predictedScore = js_string_of finalHomeScore @ ''-'' @ js_string_of finalAwayScore,
          p_spread = js_sub finalHomeScore finalAwayScore,
          p_confidence = finalConfidence,
          p_timestamp = now,
          p_checked = False,
          p_models =
            \<lparr>models_elo =
               \<lparr>eb_winner = elo_predictedWinner eloPrediction,
                eb_score = elo_predictedScore eloPrediction,
                eb_confidence = elo_confidence eloPrediction,
                eb_homeWinProb = toFixed 1 (elo_homeWinProbability eloPrediction),
                eb_awayWinProb = toFixed 1 (elo_awayWinProbability eloPrediction)\<rparr>,
             models_efficiency =
               \<lparr>fb_winner = eff_predictedWinner efficiencyPrediction,
                fb_score = eff_predictedScore efficiencyPrediction,
                fb_confidence = eff_confidence efficiencyPrediction\<rparr>\<rparr>,
          p_correct = None,
          p_actualWinner = None,
          p_actualScore = None,
          p_scoreError = None,
          p_checkedAt = None\<rparr>)"

text \<open>
  \<open>predict\<close>. The result is an exception, \<open>null\<close> or a prediction, together with the
  log. An absent ratings table, an absent \<open>teamStats\<close> and absent rankings make the
  property reads of the source throw.
\<close>

definition predict :: "game \<Rightarrow> predict_context \<Rightarrow> string \<Rightarrow> (js_error + prediction option) \<times> log_entry list" where
  "predict g ctx now =
     (let homeTeam = game_homeTeam g;
          awayTeam = game_awayTeam g
      in case elo_predictGame (ctx_eloRatings ctx) homeTeam awayTeam of
           (Inl e, log1) \<Rightarrow> (Inl e, log1)
         | (Inr eloPrediction, log1) \<Rightarrow>
             (case ctx_teamStats ctx of
                None \<Rightarrow> (Inl TypeError, log1)
              | Some teamStats \<Rightarrow>
                  (case efficiency_predictGame
                          (Some (with_teamName (map_of teamStats homeTeam) homeTeam))
                          (Some (with_teamName (map_of teamStats awayTeam) awayTeam))
                          (ctx_leagueAverage ctx) (ctx_rankings ctx) of
                     (Inl e, log2) \<Rightarrow> (Inl e, log1 @ log2)
                   | (Inr efficiencyPrediction, log2) \<Rightarrow>
                       (case (eloPrediction, efficiencyPrediction) of
                          (Some ep, Some fp) \<Rightarrow>
                            (Inr (Some (combine_predictions g ep fp now)), log1 @ log2)
                        | _ \<Rightarrow>
                            (Inr None,
                             log1 @ log2 @ [(Error, ''Failed to generate predictions'')])))))"

text \<open>
  \<open>predictGames\<close>: the loop over the games with its try and catch. \<open>clock i\<close> is the
  reading of the clock while the game at position \<open>i\<close> is predicted. The handler
  formats the two team names of the game, which cannot fail for a game object, and
  logs.
\<close>

fun predictGames_loop ::
  "game list \<Rightarrow> predict_context \<Rightarrow> (nat \<Rightarrow> string) \<Rightarrow> nat \<Rightarrow> prediction list \<Rightarrow> log_entry list
     \<Rightarrow> prediction list \<times> log_entry list" where
  "predictGames_loop [] ctx clock i predictions logged = (predictions, logged)"
| "predictGames_loop (g # gs) ctx clock i predictions logged =
     (case predict g ctx (clock i) of
        (Inr (Some prediction), l) \<Rightarrow>
          predictGames_loop gs ctx clock (i + 1) (predictions @ [prediction]) (logged @ l)
      | (Inr None, l) \<Rightarrow>
          predictGames_loop gs ctx clock (i + 1) predictions (logged @ l)
      | (Inl error, l) \<Rightarrow>
          predictGames_loop gs ctx clock (i + 1) predictions
            (logged @ l @ [(Error, ''Failed to predict game'')]))"

definition predictGames :: "game list \<Rightarrow> predict_context \<Rightarrow> (nat \<Rightarrow> string) \<Rightarrow> prediction list \<times> log_entry list" where
  "predictGames gs ctx clock =
     (let (predictions, logged) = predictGames_loop gs ctx clock 0 [] []
      in (predictions,
          logged @ [(Info, ''Generated '' @ string_of_nat (length predictions) @ ''/'' @
                        string_of_nat (length gs) @ '' predictions'')]))"

record actual_result =
  ar_homeTeam :: string
  ar_awayTeam :: string
  ar_homeScore :: "int jsnum"
  ar_awayScore :: "int jsnum"

text \<open>
  \<open>checkPrediction\<close>. The body binds three constants and returns an object literal
  that spreads the prediction and sets six properties; it assigns to no property of its
  arguments. The embedding is accordingly a function from the input record to the
  returned record; \<open>now\<close> is the reading of the clock.
\<close>

definition checkPrediction :: "prediction \<Rightarrow> actual_result \<Rightarrow> string \<Rightarrow> prediction" where
  "checkPrediction prediction actualResult now =
     (let actualWinner =
            (if js_gt (ar_homeScore actualResult) (ar_awayScore actualResult)
             then ar_homeTeam actualResult else ar_awayTeam actualResult);
          correct = (p_predictedWinner prediction = actualWinner);
          predScores = parse_score (p_predictedScore prediction);
          scoreError =
            js_add (js_abs (js_sub (fst predScores) (of_whole (ar_homeScore actualResult))))
                   (js_abs (js_sub (snd predScores) (of_whole (ar_awayScore actualResult))))
      in prediction
           \<lparr>p_checked := True,
            p_correct := Some correct,
            p_actualWinner := Some actualWinner,
            p_actualScore :=
              Some (js_string_of (ar_homeScore actualResult) @ ''-'' @
                    js_string_of (ar_awayScore actualResult)),
            p_scoreError := Some scoreError,
            p_checkedAt := Some now\<rparr>)"

text \<open>
  A score that renders without a minus sign: a whole number that is not negative,
  Infinity or NaN.
\<close>

definition plain_score :: "int jsnum \<Rightarrow> bool" where
  "plain_score w = (case w of Fin i \<Rightarrow> 0 \<le> i | PInf \<Rightarrow> True | NInf \<Rightarrow> False | NaN \<Rightarrow> True)"

text \<open>
  A whole number that, when finite, has a magnitude of at most \<open>2^51\<close>: the
  differences of two such numbers and the sum of two such differences are whole numbers
  of magnitude at most \<open>2^53\<close>, which the program's doubles hold exactly.
\<close>

definition small_score :: "int jsnum \<Rightarrow> bool" where
  "small_score w = (case w of Fin i \<Rightarrow> \<bar>i\<bar> \<le> 2 ^ 51 | PInf \<Rightarrow> True | NInf \<Rightarrow> True | NaN \<Rightarrow> True)"

text \<open>The same for a number that need not be whole.\<close>

definition nonneg_num :: "real jsnum \<Rightarrow> bool" where
  "nonneg_num v = (case v of Fin x \<Rightarrow> 0 \<le> x | PInf \<Rightarrow> True | NInf \<Rightarrow> False | NaN \<Rightarrow> True)"

section \<open>Example data\<close>

text \<open>
  A team that has played one game, with the given points for and against per game and
  the given third-down and red-zone percentages. It holds the properties that the models
  and the ranking read; the running totals are left out.
\<close>

definition example_team :: "real \<Rightarrow> real \<Rightarrow> real \<Rightarrow> real \<Rightarrow> team_aggregate" where
  "example_team pf pa third red =
     \<lparr>games = Some (Fin 1), passingYards = None, rushingYards = None, totalYards = None,
      turnovers = None, thirdDownAttempts = None, thirdDownConversions = None,
      redZoneAttempts = None, redZoneScores = None, possessionTime = None, sacks = None,
      pointsFor = None, pointsAgainst = None, wins = None, losses = None,
      avgPassingYards = Some (Fin 200), avgRushingYards = Some (Fin 100),
      avgTotalYards = Some (Fin 300), avgPointsFor = Some (Fin pf), avgPointsAgainst = Some (Fin pa),
      thirdDownPct = Some (Fin third), redZonePct = Some (Fin red), record_text = None,
      teamName = None\<rparr>"

text \<open>
  One game: Buffalo passes for 150 yards and New York for 400, and New York wins 31-17.
  So Buffalo allowed 400 passing yards and New York allowed 150.
\<close>

definition example_block :: "real \<Rightarrow> real \<Rightarrow> stat_block" where
  "example_block pass rush =
     \<lparr>stat_passingYards = Some (Fin pass), stat_rushingYards = Some (Fin rush),
      stat_totalYards = Some (Fin (pass + rush)), stat_turnovers = Some (Fin 1),
      stat_thirdDownEff = Some \<lparr>made = Fin 5, attempts = Fin 10, percentage = Fin 50\<rparr>,
      stat_redZoneEff = None, stat_possessionTime = Some (Fin 1800), stat_sacks = Some (Fin 2)\<rparr>"

definition example_games :: "game_stats list" where
  "example_games =
     [\<lparr>gs_stats = Some [(''Buffalo Bills'', example_block 150 100),
                        (''New York Jets'', example_block 400 50)],
       gs_scores = Some [''Buffalo Bills'' \<mapsto> Fin 17, ''New York Jets'' \<mapsto> Fin 31]\<rparr>]"

text \<open>
  A matchup of two teams whose Elo ratings differ by exactly the home-field bonus, with
  the efficiency inputs of the home team depending on its points per game.
\<close>

definition example_ratings :: "string \<rightharpoonup> real jsnum" where
  "example_ratings = [''Buffalo Bills'' \<mapsto> Fin (2875 / 2), ''Miami Dolphins'' \<mapsto> Fin 1500]"

definition example_league :: league_average where
  "example_league =
     \<lparr>league_avgTotalYards = Fin 350, league_avgPointsFor = Fin 23, league_avgPointsAgainst = Fin 23,
      league_avgPassingYards = Fin 230, league_avgRushingYards = Fin 120\<rparr>"

definition example_rankings :: rankings where
  "example_rankings =
     \<lparr>offensive = Some Map.empty, defensive = Some Map.empty, rushOffense = Some Map.empty,
      passDefense = Some Map.empty\<rparr>"

definition example_stats :: "real \<Rightarrow> aggregates" where
  "example_stats pf = [(''Buffalo Bills'', example_team pf 23 0 0), (''Miami Dolphins'', example_team 23 23 0 0)]"

definition example_context :: "real \<Rightarrow> predict_context" where
  "example_context pf =
     \<lparr>ctx_eloRatings = Some example_ratings, ctx_teamStats = Some (example_stats pf),
      ctx_leagueAverage = Some example_league, ctx_rankings = Some example_rankings\<rparr>"

text \<open>The same matchup with the home team rated 100 points above the visitor.\<close>

definition example_strong_context :: predict_context where
  "example_strong_context =
     \<lparr>ctx_eloRatings = Some [''Buffalo Bills'' \<mapsto> Fin 1600, ''Miami Dolphins'' \<mapsto> Fin 1500],
      ctx_teamStats = Some (example_stats 37),
      ctx_leagueAverage = Some example_league, ctx_rankings = Some example_rankings\<rparr>"

definition example_game :: game where
  "example_game =
     \<lparr>game_id = ''401'', game_date = ''2025-09-07'', game_homeTeam = ''Buffalo Bills'',
      game_awayTeam = ''Miami Dolphins''\<rparr>"

definition example_elo_prediction :: elo_prediction where
  "example_elo_prediction =
     \<lparr>elo_homeTeam = ''Buffalo Bills'', elo_awayTeam = ''Miami Dolphins'',
      elo_predictedWinner = ''Miami Dolphins'', elo_homeWinProbability = Fin 50,
      elo_awayWinProbability = Fin 50, elo_confidence = Low, elo_eloDifference = Fin 0,
      elo_predictedScore = ''23-23'', elo_homeRating = ''1438'', elo_awayRating = ''1500''\<rparr>"

definition example_efficiency :: "real \<Rightarrow> efficiency_prediction" where
  "example_efficiency pf =
     efficiency_projection
       (with_teamName (Some (example_team pf 23 0 0)) ''Buffalo Bills'')
       (with_teamName (Some (example_team 23 23 0 0)) ''Miami Dolphins'')
       example_league (Fin 0) (Fin 0)"

text \<open>A game whose home team has no Elo rating.\<close>

definition example_unknown_game :: game where
  "example_unknown_game =
     \<lparr>game_id = ''402'', game_date = ''2025-09-07'', game_homeTeam = ''London Monarchs'',
      game_awayTeam = ''Miami Dolphins''\<rparr>"

text \<open>A stored prediction of 24-20 for the home team, and a final score of 20-24.\<close>

definition example_prediction :: prediction where
  "example_prediction =
     \<lparr>p_id = ''401'', p_gameDate = ''2025-09-07'', p_homeTeam = ''Buffalo Bills'',
      p_awayTeam = ''Miami Dolphins'', p_predictedWinner = ''Buffalo Bills'',
      p_predictedScore = ''24-20'', p_spread = Fin 4, p_confidence = Low,
      p_timestamp = ''2025-09-01T12:00:00.000Z'', p_checked = False,
      p_models =
        \<lparr>models_elo =
           \<lparr>eb_winner = ''Buffalo Bills'', eb_score = ''24-22'', eb_confidence = Low,
            eb_homeWinProb = ''58.9'', eb_awayWinProb = ''41.1''\<rparr>,
         models_efficiency =
           \<lparr>fb_winner = Some ''Buffalo Bills'', fb_score = ''24-17'', fb_confidence = Medium\<rparr>\<rparr>,
      p_correct = None, p_actualWinner = None, p_actualScore = None, p_scoreError = None,
      p_checkedAt = None\<rparr>"

definition example_result :: actual_result where
  "example_result =
     \<lparr>ar_homeTeam = ''Buffalo Bills'', ar_awayTeam = ''Miami Dolphins'',
      ar_homeScore = Fin 20, ar_awayScore = Fin 24\<rparr>"

text \<open>A stored prediction of 20-24 for the visitor, and a final score of 20-20.\<close>

definition example_away_pick :: prediction where
  "example_away_pick =
     example_prediction
       \<lparr>p_predictedWinner := ''Miami Dolphins'', p_predictedScore := ''20-24'',
        p_spread := Fin (- 4)\<rparr>"

definition example_tied_result :: actual_result where
  "example_tied_result =
     \<lparr>ar_homeTeam = ''Buffalo Bills'', ar_awayTeam = ''Miami Dolphins'',
      ar_homeScore = Fin 20, ar_awayScore = Fin 20\<rparr>"

section \<open>Properties of the statistics parser\<close>

subsection \<open>Strings of decimal digits\<close>

lemma split_on_no_sep: "c \<notin> set s \<Longrightarrow> split_on c s = [s]"
  by (induction s) auto

lemma split_on_append: "c \<notin> set a \<Longrightarrow> split_on c (a @ c # b) = a # split_on c b"
  by (induction a) auto

lemma dec_char_is_digit: "c \<in> set ''0123456789'' \<Longrightarrow> is_digit 10 c"
  by (auto simp: is_digit_def digit_val_def)

lemma dec_char_not_ws: "c \<in> set ''0123456789'' \<Longrightarrow> \<not> StrWhiteSpaceChar c"
  by (auto simp: StrWhiteSpaceChar_def)

lemma dec_char_plain:
  "c \<in> set ''0123456789'' \<Longrightarrow>
     c \<noteq> CHR ''-'' \<and> c \<noteq> CHR ''+'' \<and> c \<noteq> CHR ''x'' \<and> c \<noteq> CHR ''X'' \<and> c \<noteq> CHR ''.'' \<and>
     c \<noteq> CHR ''e'' \<and> c \<noteq> CHR ''E'' \<and> c \<noteq> CHR ''o'' \<and> c \<noteq> CHR ''O'' \<and> c \<noteq> CHR ''b'' \<and>
     c \<noteq> CHR ''B'' \<and> c \<noteq> CHR ''I''"
  by auto

lemma digit_string_takeWhile:
  "list_all (\<lambda>c. c \<in> set ''0123456789'') s \<Longrightarrow> takeWhile (is_digit 10) s = s"
  by (induction s) (simp_all add: dec_char_is_digit del: set_simps)

lemma digit_string_no_dash: "digit_string s \<Longrightarrow> CHR ''-'' \<notin> set s"
  unfolding digit_string_def list_all_iff using dec_char_plain by blast

lemma bit_length_le: "n < 2 ^ k \<Longrightarrow> bit_length n \<le> k"
proof (induction n arbitrary: k rule: bit_length.induct)
  case (1 n)
  show ?case
  proof (cases "n = 0")
    case True
    then show ?thesis by (subst bit_length.simps) simp
  next
    case False
    with "1.prems" obtain j where k: "k = Suc j" by (cases k) auto
    with "1.prems" have "n div 2 < 2 ^ j" by auto
    with "1.IH"[OF False] have "bit_length (n div 2) \<le> j" by blast
    with False k show ?thesis by (subst bit_length.simps) simp
  qed
qed

lemma bit_length_double: "0 < n \<Longrightarrow> bit_length (2 * n) = Suc (bit_length n)"
  by (subst bit_length.simps) simp

lemma bit_length_power: "bit_length (2 ^ k) = Suc k"
proof (induction k)
  case 0
  show ?case by (simp add: bit_length.simps[of "Suc 0"] bit_length.simps[of 0])
next
  case (Suc k)
  then show ?case by (simp add: bit_length_double)
qed

lemma double_of_nat_small:
  assumes "n \<le> 2 ^ 53"
  shows "double_of_nat n = Fin n"
proof (cases "n < 2 ^ 53")
  case True
  then have "bit_length n - 53 = 0" using bit_length_le[of n 53] by simp
  moreover from True have "n < 2 ^ 1024"
    by (rule less_trans) simp
  ultimately show ?thesis by (simp add: double_of_nat_def Let_def)
next
  case False
  with assms have n: "n = 2 ^ 53" by simp
  have e: "bit_length n - 53 = 1" unfolding n bit_length_power by simp
  show ?thesis unfolding double_of_nat_def Let_def e by (simp add: n)
qed



subsection \<open>The made-attempts shape\<close>



text \<open>
  Claim C9. Every string that contains a dash takes the made-attempts branch: the result
  is a structured object and never a number. For \<open>-7\<close> the text before the dash is
  empty, so \<open>made\<close> is 0, \<open>attempts\<close> is 7 and the percentage is NaN.
\<close>

theorem parseStatValue_dash_branch:
  "(\<forall>v. CHR ''-'' \<in> set v \<longrightarrow>
      (\<exists>m. parseStatValue (SStr v) = SMadeAttempts m) \<and>
      (\<forall>n. parseStatValue (SStr v) \<noteq> SNum n)) \<and>
   parseStatValue (SStr ''-7'') =
     SMadeAttempts \<lparr>made = Fin 0, attempts = Fin 7, percentage = NaN\<rparr>"
proof (intro conjI allI impI)
  fix v :: string assume "CHR ''-'' \<in> set v"
  then show "\<exists>m. parseStatValue (SStr v) = SMadeAttempts m" by (simp add: Let_def)
next
  fix v :: string and n assume "CHR ''-'' \<in> set v"
  then show "parseStatValue (SStr v) \<noteq> SNum n" by (simp add: Let_def)
next
  show "parseStatValue (SStr ''-7'') =
     SMadeAttempts \<lparr>made = Fin 0, attempts = Fin 7, percentage = NaN\<rparr>"
    by (simp add: js_index_def parseInt_def js_ToString_def StrWhiteSpaceChar_def is_digit_def
        digit_val_def digits_value_def js_or_def of_whole_def double_of_nat_small signed_whole_def)
qed

theorem parseStatValue_dash_branch_witness:
  "CHR ''-'' \<in> set ''-12.5'' \<and>
   (\<exists>m. parseStatValue (SStr ''-12.5'') = (SMadeAttempts m :: unit stat_value)) \<and>
   parseStatValue (SStr ''-12.5'') \<noteq> (SNum (Fin (- 25 / 2)) :: unit stat_value)"
proof -
  have d: "CHR ''-'' \<in> set ''-12.5''" by simp
  from parseStatValue_dash_branch d
  have "(\<exists>m. parseStatValue (SStr ''-12.5'') = (SMadeAttempts m :: unit stat_value)) \<and>
        (\<forall>n. parseStatValue (SStr ''-12.5'') \<noteq> (SNum n :: unit stat_value))"
    by blast
  with d show ?thesis by blast
qed

section \<open>Properties of the efficiency model\<close>

subsection \<open>Arithmetic with zero\<close>





subsection \<open>The situational adjustment\<close>



subsection \<open>League averages\<close>

lemma has_games_D:
  assumes "has_games aggs team"
  shows "\<exists>a. (team, a) \<in> set aggs \<and> js_gt (num_of (games a)) (Fin 0)"
proof (cases "map_of aggs team")
  case None
  with assms show ?thesis by (simp add: has_games_def field_of_def js_gt_def)
next
  case (Some a)
  with assms have "js_gt (num_of (games a)) (Fin 0)" by (simp add: has_games_def field_of_def)
  moreover from Some have "(team, a) \<in> set aggs" by (rule map_of_SomeD)
  ultimately show ?thesis by blast
qed

text \<open>
  Claim C4. When no team of the aggregates has \<open>games > 0\<close>, \<open>calculateLeagueAverages\<close>
  returns the fallback record 350 / 23 / 23 / 230 / 120 (and logs a warning). That
  branch divides nothing, and no field of the result is NaN.
\<close>

theorem calculateLeagueAverages_fallback:
  assumes "\<forall>(team, a) \<in> set aggs. \<not> js_gt (num_of (games a)) (Fin 0)"
  shows "calculateLeagueAverages aggs =
           (\<lparr>league_avgTotalYards = Fin 350, league_avgPointsFor = Fin 23,
             league_avgPointsAgainst = Fin 23, league_avgPassingYards = Fin 230,
             league_avgRushingYards = Fin 120\<rparr>,
            [(Warn, ''No teams with games played for league averages'')]) \<and>
         league_avgTotalYards (fst (calculateLeagueAverages aggs)) \<noteq> NaN \<and>
         league_avgPointsFor (fst (calculateLeagueAverages aggs)) \<noteq> NaN \<and>
         league_avgPointsAgainst (fst (calculateLeagueAverages aggs)) \<noteq> NaN \<and>
         league_avgPassingYards (fst (calculateLeagueAverages aggs)) \<noteq> NaN \<and>
         league_avgRushingYards (fst (calculateLeagueAverages aggs)) \<noteq> NaN"
proof -
  have "filter (has_games aggs) (map fst aggs) = []"
  proof (rule ccontr)
    assume "filter (has_games aggs) (map fst aggs) \<noteq> []"
    then obtain team where "has_games aggs team"
      by (auto simp: filter_empty_conv)
    from has_games_D[OF this] assms show False by blast
  qed
  then show ?thesis by (simp add: calculateLeagueAverages_def)
qed

theorem calculateLeagueAverages_fallback_witness:
  "\<not> js_gt (num_of (games ((example_team 0 0 0 0)\<lparr>games := Some (Fin 0)\<rparr>))) (Fin 0) \<and>
   \<not> js_gt (num_of (games ((example_team 0 0 0 0)\<lparr>games := None\<rparr>))) (Fin 0) \<and>
   fst (calculateLeagueAverages
          [(''Arizona Cardinals'', (example_team 0 0 0 0)\<lparr>games := Some (Fin 0)\<rparr>),
           (''Atlanta Falcons'', (example_team 0 0 0 0)\<lparr>games := None\<rparr>)]) =
     \<lparr>league_avgTotalYards = Fin 350, league_avgPointsFor = Fin 23,
      league_avgPointsAgainst = Fin 23, league_avgPassingYards = Fin 230,
      league_avgRushingYards = Fin 120\<rparr>"
proof -
  have h1: "\<not> js_gt (num_of (games ((example_team 0 0 0 0)\<lparr>games := Some (Fin 0)\<rparr>))) (Fin 0)"
    and h2: "\<not> js_gt (num_of (games ((example_team 0 0 0 0)\<lparr>games := None\<rparr>))) (Fin 0)"
    by (simp_all add: example_team_def js_gt_def num_of_def)
  have h: "\<forall>(team, a) \<in> set [(''Arizona Cardinals'', (example_team 0 0 0 0)\<lparr>games := Some (Fin 0)\<rparr>),
                        (''Atlanta Falcons'', (example_team 0 0 0 0)\<lparr>games := None\<rparr>)].
      \<not> js_gt (num_of (games a)) (Fin 0)"
    using h1 h2 by simp
  from calculateLeagueAverages_fallback[OF h] h1 h2 show ?thesis by simp
qed

subsection \<open>Missing inputs of predictGame\<close>

text \<open>
  The guard: when the home aggregate, the away aggregate or the league average is
  missing, \<open>predictGame\<close> returns \<open>null\<close>, raises nothing and logs one error.
\<close>

lemma efficiency_predictGame_guard:
  assumes "homeTeamStats = None \<or> awayTeamStats = None \<or> leagueAverage = None"
  shows "efficiency_predictGame homeTeamStats awayTeamStats leagueAverage rankings =
           (Inr None, [(Error, ''Missing required stats for efficiency prediction'')])"
  using assms
  by (cases homeTeamStats; cases awayTeamStats; cases leagueAverage)
     (simp_all add: efficiency_predictGame_def)

text \<open>
  With the three inputs present, a rankings object that holds the two tables the
  matchup reads gives a prediction record.
\<close>

lemma efficiency_predictGame_with_tables:
  assumes "rushOffense r = Some rushTable" and "passDefense r = Some passTable"
  shows "\<exists>p. efficiency_predictGame (Some home) (Some away) (Some league) (Some r) =
               (Inr (Some p), [])"
  using assms by (simp add: efficiency_predictGame_def calculateMatchupAdvantage_def Let_def)

text \<open>
  Claim C7. The claim has \<open>predictGame\<close> return a prediction record whenever the home
  aggregate, the away aggregate and the league average are present. The source at such
  an input, with the fourth argument \<open>rankings\<close> absent: the guard passes,
  \<open>calculateMatchupAdvantage\<close> reads \<open>rankings.rushOffense\<close>, and the call ends in a
  TypeError, with no record and no log entry. The same happens for a rankings object
  that holds no table.
\<close>

theorem efficiency_predictGame_absent_rankings:
  "efficiency_predictGame (Some (example_team 20 23 0 0)) (Some (example_team 23 23 0 0))
     (Some example_league) None = (Inl TypeError, []) \<and>
   efficiency_predictGame (Some (example_team 20 23 0 0)) (Some (example_team 23 23 0 0))
     (Some example_league)
     (Some \<lparr>offensive = None, defensive = None, rushOffense = None, passDefense = None\<rparr>) =
       (Inl TypeError, [])"
  by (simp add: efficiency_predictGame_def calculateMatchupAdvantage_def)

section \<open>Properties of the ranking\<close>

subsection \<open>The sort and the rank assignment\<close>

lemma consistent_difference:
  assumes "\<forall>a \<in> set xs. \<forall>b \<in> set xs. cmp a b = Fin (m a - m b)"
  shows "consistent_comparator cmp xs"
  unfolding consistent_comparator_def list_all_iff
proof (intro ballI)
  fix a b c assume "a \<in> set xs" "b \<in> set xs" "c \<in> set xs"
  with assms have "cmp a b = Fin (m a - m b)" "cmp a a = Fin (m a - m a)"
    "cmp b a = Fin (m b - m a)" "cmp b c = Fin (m b - m c)" "cmp a c = Fin (m a - m c)"
    by blast+
  then show "cmp a b \<noteq> NaN \<and>
         js_seq (cmp a a) (Fin 0) \<and>
         (if js_seq (cmp a b) (Fin 0) then js_seq (cmp b a) (Fin 0) else True) \<and>
         (if js_seq (cmp a b) (Fin 0) \<and> js_seq (cmp b c) (Fin 0)
          then js_seq (cmp a c) (Fin 0) else True) \<and>
         (if js_lt (cmp a b) (Fin 0) \<and> js_lt (cmp b c) (Fin 0)
          then js_lt (cmp a c) (Fin 0) else True) \<and>
         (if js_gt (cmp a b) (Fin 0) \<and> js_gt (cmp b c) (Fin 0)
          then js_gt (cmp a c) (Fin 0) else True)"
    by (simp add: js_seq_def js_gt_def)
qed

lemma insert_by_insort_key:
  assumes "\<forall>t \<in> set ys. cmp x t = Fin (m x - m t)"
  shows "insert_by cmp x ys = insort_key m x ys"
  using assms by (induction ys) (auto simp: js_gt_def)

lemma foldr_insert_by_sort_key:
  assumes "\<forall>a \<in> set xs. \<forall>b \<in> set xs. cmp a b = Fin (m a - m b)"
  shows "foldr (insert_by cmp) xs [] = sort_key m xs"
  using assms
proof (induction xs)
  case Nil
  show ?case by simp
next
  case (Cons x xs)
  then have ih: "foldr (insert_by cmp) xs [] = sort_key m xs" by simp
  have "foldr (insert_by cmp) (x # xs) [] = insert_by cmp x (foldr (insert_by cmp) xs [])" by simp
  also have "\<dots> = insert_by cmp x (sort_key m xs)" by (simp only: ih)
  also have "\<dots> = insort_key m x (sort_key m xs)"
    by (rule insert_by_insort_key) (use Cons.prems in simp)
  finally show ?case by simp
qed

text \<open>
  A comparator that subtracts finite keys is consistent, and the sort is then the stable
  sort on the key, whatever the engine.
\<close>

lemma js_sort_sort_key:
  assumes "\<forall>a \<in> set xs. \<forall>b \<in> set xs. cmp a b = Fin (m a - m b)"
  shows "js_sort engine cmp xs = sort_key m xs"
  by (simp add: js_sort_def consistent_difference[OF assms] foldr_insert_by_sort_key[OF assms])

lemma assign_ranks_other: "t \<notin> set ts \<Longrightarrow> assign_ranks ts i acc t = acc t"
  by (induction ts arbitrary: i acc) auto

lemma assign_ranks_nth:
  "distinct ts \<Longrightarrow> ''__proto__'' \<notin> set ts \<Longrightarrow> k < length ts \<Longrightarrow>
     assign_ranks ts i acc (ts ! k) = Some (i + k + 1)"
proof (induction ts arbitrary: i acc k)
  case Nil
  then show ?case by simp
next
  case (Cons t ts)
  from Cons.prems have np: "t \<noteq> ''__proto__''" by auto
  show ?case
  proof (cases k)
    case 0
    with Cons.prems np show ?thesis by (simp add: assign_ranks_other)
  next
    case (Suc k')
    have "assign_ranks ts (i + 1) (acc(t \<mapsto> i + 1)) (ts ! k') = Some (i + 1 + k' + 1)"
      by (rule Cons.IH) (use Cons.prems Suc in auto)
    with Suc np show ?thesis by simp
  qed
qed

subsection \<open>The pass-defense ranking\<close>

text \<open>
  What the pass-defense ranking of \<open>calculateRankings\<close> computes. It keeps the teams
  with \<open>games > 0\<close>, orders them by the property \<open>avgPassingYards\<close> of the aggregate in
  ascending order, ties in key order, and gives the team at position \<open>k\<close> of that order
  (counted from 0) the rank \<open>k + 1\<close>; a team without games gets no rank. This holds for
  aggregates whose ranked teams carry finite averages (then the comparator is
  consistent and the engine has no choice) and whose keys are distinct and not
  \<open>__proto__\<close>.
\<close>

lemma passDefense_orders_by_avgPassingYards:
  assumes "distinct (map fst aggs)" and "''__proto__'' \<notin> set (map fst aggs)"
    and "\<forall>t \<in> set (filter (has_games aggs) (map fst aggs)).
           field_of aggs avgPassingYards t = Fin (yards t)"
  shows "\<exists>R. passDefense (calculateRankings engine aggs) = Some R \<and>
           (let teams = filter (has_games aggs) (map fst aggs);
                ranked = sort_key yards teams
            in (\<forall>k < length ranked. R (ranked ! k) = Some (k + 1)) \<and>
               (\<forall>t. t \<notin> set teams \<longrightarrow> R t = None) \<and>
               set ranked = set teams \<and> distinct ranked \<and> length ranked = length teams \<and>
               sorted (map yards ranked) \<and>
               (\<forall>t u i j. R t = Some i \<and> R u = Some j \<and> yards t < yards u \<longrightarrow> i < j))"
proof -
  define teams where "teams = filter (has_games aggs) (map fst aggs)"
  define ranked where "ranked = sort_key yards teams"
  define R where "R = assign_ranks ranked 0 Map.empty"
  have dt: "distinct teams" using assms(1) by (simp add: teams_def)
  have cmp: "\<forall>a \<in> set teams. \<forall>b \<in> set teams.
        js_sub (field_of aggs avgPassingYards a) (field_of aggs avgPassingYards b) = Fin (yards a - yards b)"
    using assms(3) by (simp add: teams_def js_sub_def)
  have srt: "js_sort engine (\<lambda>a b. js_sub (field_of aggs avgPassingYards a) (field_of aggs avgPassingYards b)) teams = ranked"
    unfolding ranked_def by (rule js_sort_sort_key[OF cmp])
  have R: "passDefense (calculateRankings engine aggs) = Some R"
    by (simp add: R_def calculateRankings_def rank_teams_def srt[unfolded teams_def] ranked_def teams_def)
  have sr: "set ranked = set teams" and dr: "distinct ranked" and lr: "length ranked = length teams"
    and so: "sorted (map yards ranked)"
    using dt by (simp_all add: ranked_def)
  have np: "''__proto__'' \<notin> set ranked" using assms(2) by (auto simp: sr teams_def)
  have pos: "R (ranked ! k) = Some (k + 1)" if "k < length ranked" for k
    using assign_ranks_nth[OF dr np that, of 0 Map.empty] by (simp add: R_def)
  have none: "R t = None" if "t \<notin> set teams" for t
    using that assign_ranks_other[of t ranked 0 Map.empty] by (simp add: R_def sr)
  have mono: "i < j" if "R t = Some i" "R u = Some j" "yards t < yards u" for t u i j
  proof -
    have "t \<in> set ranked"
    proof (rule ccontr)
      assume "t \<notin> set ranked"
      then have "R t = None" using none sr by simp
      with that(1) show False by simp
    qed
    then obtain k where k: "k < length ranked" "ranked ! k = t" by (auto simp: in_set_conv_nth)
    have "u \<in> set ranked"
    proof (rule ccontr)
      assume "u \<notin> set ranked"
      then have "R u = None" using none sr by simp
      with that(2) show False by simp
    qed
    then obtain l where l: "l < length ranked" "ranked ! l = u" by (auto simp: in_set_conv_nth)
    from pos[OF k(1)] k(2) that(1) have i: "i = k + 1" by simp
    from pos[OF l(1)] l(2) that(2) have j: "j = l + 1" by simp
    have "k < l"
    proof (rule ccontr)
      assume "\<not> k < l"
      then have "l \<le> k" by simp
      with so k(1) have "map yards ranked ! l \<le> map yards ranked ! k"
        by (simp add: sorted_iff_nth_mono)
      with k l that(3) show False by simp
    qed
    with i j show ?thesis by simp
  qed
  have "(\<forall>k < length ranked. R (ranked ! k) = Some (k + 1)) \<and>
        (\<forall>t. t \<notin> set teams \<longrightarrow> R t = None) \<and>
        set ranked = set teams \<and> distinct ranked \<and> length ranked = length teams \<and>
        sorted (map yards ranked) \<and>
        (\<forall>t u i j. R t = Some i \<and> R u = Some j \<and> yards t < yards u \<longrightarrow> i < j)"
    using pos none sr dr lr so mono by blast
  with R show ?thesis
    unfolding Let_def teams_def[symmetric] ranked_def[symmetric] by blast
qed

subsection \<open>The keys and entries of the aggregates\<close>

lemma update_entry_keys: "map fst (update_entry name f aggs) = map fst aggs"
  by (induction aggs) (auto simp: update_entry_def)

lemma map_of_update_entry:
  "map_of (update_entry name f aggs) t =
     (if t = name then map_option f (map_of aggs t) else map_of aggs t)"
  by (induction aggs) (auto simp: update_entry_def)

lemma map_of_initial:
  "map_of (map (\<lambda>name. (name, c)) names) t = (if t \<in> set names then Some c else None)"
  by (induction names) auto

lemma map_of_finished:
  "map_of (map (\<lambda>(k, a). (k, f a)) aggs) t = map_option f (map_of aggs t)"
  by (induction aggs) auto

lemma finished_keys: "map fst (map (\<lambda>(k, a). (k, f a)) aggs) = map fst aggs"
  by (induction aggs) auto

lemma aggregate_entry_keys:
  "map fst (fst (aggregate_entry game teams state entry)) = map fst (fst state)"
  by (simp add: aggregate_entry_def update_entry_keys split: option.splits)

lemma aggregate_entries_keys:
  "map fst (fst (foldl (aggregate_entry game teams) state entries)) = map fst (fst state)"
  by (induction entries arbitrary: state) (simp_all add: aggregate_entry_keys)

lemma aggregate_game_keys: "map fst (fst (aggregate_game state game)) = map fst (fst state)"
  by (simp add: aggregate_game_def Let_def aggregate_entries_keys)

lemma aggregate_games_keys:
  "map fst (fst (foldl aggregate_game state gameStats)) = map fst (fst state)"
  by (induction gameStats arbitrary: state) (simp_all add: aggregate_game_keys)

text \<open>The aggregates hold exactly the teams of the registry, whatever the games.\<close>

lemma aggregateStats_keys: "map fst (fst (aggregateStats gameStats)) = NFL_TEAMS"
proof -
  have "map fst (fst (aggregateStats gameStats)) =
          map fst (map (\<lambda>name. (name, initial_aggregate)) NFL_TEAMS)"
    unfolding aggregateStats_def Let_def fst_conv finished_keys aggregate_games_keys ..
  also have "\<dots> = NFL_TEAMS" by (simp add: comp_def)
  finally show ?thesis .
qed

lemma rank_teams_sort_key:
  assumes "\<forall>a \<in> set (filter (has_games aggs) (map fst aggs)).
           \<forall>b \<in> set (filter (has_games aggs) (map fst aggs)). cmp a b = Fin (m a - m b)"
  shows "rank_teams engine aggs cmp =
           assign_ranks (sort_key m (filter (has_games aggs) (map fst aggs))) 0 Map.empty"
  by (simp only: rank_teams_def js_sort_sort_key[OF assms])

subsection \<open>The ranking of an aggregated game\<close>

lemma example_registry:
  "''Buffalo Bills'' \<in> set NFL_TEAMS" "''New York Jets'' \<in> set NFL_TEAMS"
  "filter (\<lambda>t. t = ''Buffalo Bills'' \<or> t = ''New York Jets'') NFL_TEAMS =
     [''Buffalo Bills'', ''New York Jets'']"
  by (simp_all add: NFL_TEAMS_def)

lemma example_games_entries:
  "map_of (fst (aggregateStats example_games)) t =
     (if t = ''Buffalo Bills'' then
        Some (finish_aggregate
                (aggregate_team (hd example_games) [''Buffalo Bills'', ''New York Jets'']
                   ''Buffalo Bills'' (example_block 150 100) initial_aggregate))
      else if t = ''New York Jets'' then
        Some (finish_aggregate
                (aggregate_team (hd example_games) [''Buffalo Bills'', ''New York Jets'']
                   ''New York Jets'' (example_block 400 50) initial_aggregate))
      else if t \<in> set NFL_TEAMS then Some (finish_aggregate initial_aggregate)
      else None)"
  by (simp add: aggregateStats_def Let_def map_of_finished example_games_def aggregate_game_def
      aggregate_entry_def map_of_update_entry map_of_initial example_registry)

lemma example_games_values:
  "games (finish_aggregate initial_aggregate) = Some (Fin 0)"
  "games (finish_aggregate
            (aggregate_team (hd example_games) [''Buffalo Bills'', ''New York Jets'']
               ''Buffalo Bills'' (example_block 150 100) initial_aggregate)) = Some (Fin 1)"
  "games (finish_aggregate
            (aggregate_team (hd example_games) [''Buffalo Bills'', ''New York Jets'']
               ''New York Jets'' (example_block 400 50) initial_aggregate)) = Some (Fin 1)"
  "avgPassingYards (finish_aggregate
            (aggregate_team (hd example_games) [''Buffalo Bills'', ''New York Jets'']
               ''Buffalo Bills'' (example_block 150 100) initial_aggregate)) = Some (Fin 150)"
  "avgPassingYards (finish_aggregate
            (aggregate_team (hd example_games) [''Buffalo Bills'', ''New York Jets'']
               ''New York Jets'' (example_block 400 50) initial_aggregate)) = Some (Fin 400)"
  "avgPointsAgainst (finish_aggregate
            (aggregate_team (hd example_games) [''Buffalo Bills'', ''New York Jets'']
               ''Buffalo Bills'' (example_block 150 100) initial_aggregate)) = Some (Fin 31)"
  "avgPointsAgainst (finish_aggregate
            (aggregate_team (hd example_games) [''Buffalo Bills'', ''New York Jets'']
               ''New York Jets'' (example_block 400 50) initial_aggregate)) = Some (Fin 17)"
  by (simp_all add: finish_aggregate_def aggregate_team_def initial_aggregate_def example_games_def
      example_block_def add_to_def num_of_def js_gt_def js_or_field_def js_or_def Let_def
      score_or_0_def score_read_def of_whole_def)

lemma example_games_teams:
  "filter (has_games (fst (aggregateStats example_games))) (map fst (fst (aggregateStats example_games))) =
     [''Buffalo Bills'', ''New York Jets'']"
proof -
  have "has_games (fst (aggregateStats example_games)) t =
          (t = ''Buffalo Bills'' \<or> t = ''New York Jets'')" for t
    by (simp add: has_games_def field_of_def example_games_entries example_games_values
        num_of_def js_gt_def)
  then have "filter (has_games (fst (aggregateStats example_games))) NFL_TEAMS =
               filter (\<lambda>t. t = ''Buffalo Bills'' \<or> t = ''New York Jets'') NFL_TEAMS"
    by (intro filter_cong refl)
  then show ?thesis by (simp add: aggregateStats_keys example_registry)
qed

lemma example_games_fields:
  "field_of (fst (aggregateStats example_games)) avgPassingYards ''Buffalo Bills'' = Fin 150"
  "field_of (fst (aggregateStats example_games)) avgPassingYards ''New York Jets'' = Fin 400"
  "field_of (fst (aggregateStats example_games)) avgPointsAgainst ''Buffalo Bills'' = Fin 31"
  "field_of (fst (aggregateStats example_games)) avgPointsAgainst ''New York Jets'' = Fin 17"
  by (simp_all add: field_of_def example_games_entries example_games_values num_of_def)

lemma example_games_passDefense:
  "rank_teams engine (fst (aggregateStats example_games))
     (\<lambda>a b. js_sub (field_of (fst (aggregateStats example_games)) avgPassingYards a)
                   (field_of (fst (aggregateStats example_games)) avgPassingYards b)) =
     [''Buffalo Bills'' \<mapsto> 1, ''New York Jets'' \<mapsto> 2]"
proof -
  let ?aggs = "fst (aggregateStats example_games)"
  let ?m = "\<lambda>t. if t = ''Buffalo Bills'' then 150 else (400 :: real)"
  have "rank_teams engine ?aggs
          (\<lambda>a b. js_sub (field_of ?aggs avgPassingYards a) (field_of ?aggs avgPassingYards b)) =
        assign_ranks (sort_key ?m (filter (has_games ?aggs) (map fst ?aggs))) 0 Map.empty"
    by (rule rank_teams_sort_key) (simp add: example_games_teams example_games_fields js_sub_def)
  also have "\<dots> = [''Buffalo Bills'' \<mapsto> 1, ''New York Jets'' \<mapsto> 2]"
    by (simp add: example_games_teams numeral_2_eq_2)
  finally show ?thesis .
qed

lemma example_games_defensive:
  "rank_teams engine (fst (aggregateStats example_games))
     (\<lambda>a b. js_sub (field_of (fst (aggregateStats example_games)) avgPointsAgainst a)
                   (field_of (fst (aggregateStats example_games)) avgPointsAgainst b)) =
     [''New York Jets'' \<mapsto> 1, ''Buffalo Bills'' \<mapsto> 2]"
proof -
  let ?aggs = "fst (aggregateStats example_games)"
  let ?m = "\<lambda>t. if t = ''Buffalo Bills'' then 31 else (17 :: real)"
  have "rank_teams engine ?aggs
          (\<lambda>a b. js_sub (field_of ?aggs avgPointsAgainst a) (field_of ?aggs avgPointsAgainst b)) =
        assign_ranks (sort_key ?m (filter (has_games ?aggs) (map fst ?aggs))) 0 Map.empty"
    by (rule rank_teams_sort_key) (simp add: example_games_teams example_games_fields js_sub_def)
  also have "\<dots> = [''New York Jets'' \<mapsto> 1, ''Buffalo Bills'' \<mapsto> 2]"
    by (simp add: example_games_teams numeral_2_eq_2)
  finally show ?thesis .
qed

lemma example_games_log: "snd (aggregateStats example_games) = []"
  by (simp add: aggregateStats_def Let_def example_games_def aggregate_game_def
      aggregate_entry_def map_of_update_entry map_of_initial example_registry)

text \<open>
  Claim C1. The claim has the pass-defense ranking order the teams by the passing yards
  they allowed per game, fewest first. The source at the game of the example, in which
  Buffalo passed for 150 yards and allowed 400 and New York passed for 400 and allowed
  150: \<open>aggregateStats\<close> fills \<open>avgPassingYards\<close> from each team's own passing yards,
  and the pass-defense ranking of \<open>calculateRankings\<close> sorts on that property. Buffalo
  gets rank 1 and New York rank 2, the reverse of the order by yards allowed. The
  defensive ranking beside it does rank by what a team allowed: New York, which allowed
  17 points, is ranked before Buffalo, which allowed 31.
\<close>

theorem calculateRankings_passDefense_own_yards:
  "passDefense (calculateRankings engine (fst (aggregateStats example_games))) =
     Some [''Buffalo Bills'' \<mapsto> 1, ''New York Jets'' \<mapsto> 2] \<and>
   field_of (fst (aggregateStats example_games)) avgPassingYards ''Buffalo Bills'' = Fin 150 \<and>
   field_of (fst (aggregateStats example_games)) avgPassingYards ''New York Jets'' = Fin 400 \<and>
   spec_passing_yards_allowed_per_game example_games ''Buffalo Bills'' = Fin 400 \<and>
   spec_passing_yards_allowed_per_game example_games ''New York Jets'' = Fin 150 \<and>
   defensive (calculateRankings engine (fst (aggregateStats example_games))) =
     Some [''New York Jets'' \<mapsto> 1, ''Buffalo Bills'' \<mapsto> 2] \<and>
   snd (aggregateStats example_games) = []"
proof -
  have "spec_passing_yards_allowed_per_game example_games ''Buffalo Bills'' = Fin 400"
    and "spec_passing_yards_allowed_per_game example_games ''New York Jets'' = Fin 150"
    by (simp_all add: spec_passing_yards_allowed_per_game_def spec_passing_yards_allowed_def
        spec_played_def example_games_def example_block_def js_or_field_def js_or_def)
  moreover have "passDefense (calculateRankings engine (fst (aggregateStats example_games))) =
     Some [''Buffalo Bills'' \<mapsto> 1, ''New York Jets'' \<mapsto> 2]"
    by (simp only: calculateRankings_def rankings.simps example_games_passDefense)
  moreover have "defensive (calculateRankings engine (fst (aggregateStats example_games))) =
     Some [''New York Jets'' \<mapsto> 1, ''Buffalo Bills'' \<mapsto> 2]"
    by (simp only: calculateRankings_def rankings.simps example_games_defensive)
  ultimately show ?thesis
    using example_games_fields(1,2) example_games_log by blast
qed

section \<open>Properties of the predictor\<close>

subsection \<open>The example matchup\<close>

lemma example_elo:
  "elo_predictGame (Some example_ratings) ''Buffalo Bills'' ''Miami Dolphins'' =
     (Inr (Some example_elo_prediction), [])"
  by (simp add: elo_predictGame_def example_ratings_def example_elo_prediction_def truthy_field_def
      num_of_def Let_def HOME_FIELD_ADVANTAGE_def calculateWinProbability_def js_sub_def js_gt_def
      js_ge_def js_max_def CONFIDENCE_HIGH_THRESHOLD_def CONFIDENCE_MEDIUM_THRESHOLD_def pad_zeros_def
      inherited_read_def)


lemma example_efficiency_call:
  "efficiency_predictGame
     (Some (with_teamName (map_of (example_stats pf) ''Buffalo Bills'') ''Buffalo Bills''))
     (Some (with_teamName (map_of (example_stats pf) ''Miami Dolphins'') ''Miami Dolphins''))
     (Some example_league) (Some example_rankings) = (Inr (Some (example_efficiency pf)), [])"
  by (simp add: efficiency_predictGame_def calculateMatchupAdvantage_def example_stats_def
      example_rankings_def example_efficiency_def rank_or_16_def with_teamName_def js_ToString_def
      js_sub_def Let_def object_prototype_names_def)

lemma example_efficiency_20:
  "eff_predictedScore (example_efficiency 20) = ''24-23''"
  "eff_confidence (example_efficiency 20) = Low"
  by (simp_all add: example_efficiency_def efficiency_projection_def Let_def with_teamName_def
      example_team_def example_league_def calculateSituationalAdjustment_def js_or_field_def
      js_or_def js_sub_def js_max_def js_gt_def js_ge_def num_of_def HOME_FIELD_ADVANTAGE_def
      DEFAULT_THIRD_DOWN_PCT_def DEFAULT_RED_ZONE_PCT_def)

lemma example_efficiency_37:
  "eff_predictedScore (example_efficiency 37) = ''33-23''"
  "eff_confidence (example_efficiency 37) = High"
  by (simp_all add: example_efficiency_def efficiency_projection_def Let_def with_teamName_def
      example_team_def example_league_def calculateSituationalAdjustment_def js_or_field_def
      js_or_def js_sub_def js_max_def js_gt_def js_ge_def num_of_def HOME_FIELD_ADVANTAGE_def
      DEFAULT_THIRD_DOWN_PCT_def DEFAULT_RED_ZONE_PCT_def)

lemma parse_score_examples:
  "parse_score ''23-23'' = (Fin 23, Fin 23)"
  "parse_score ''24-23'' = (Fin 24, Fin 23)"
  "parse_score ''33-23'' = (Fin 33, Fin 23)"
  by (simp_all add: parse_score_def Number_def trim_def non_decimal_radix_def
      str_decimal_literal_def unsigned_decimal_def decimal_digits_def exponent_part_def
      scale10_def is_digit_def digit_val_def digits_value_def StrWhiteSpaceChar_def js_index_def
      num_of_def Let_def)


lemma example_elo_call:
  "elo_predictGame (ctx_eloRatings (example_context pf)) (game_homeTeam example_game)
     (game_awayTeam example_game) = (Inr (Some example_elo_prediction), [])"
  using example_elo by (simp add: example_context_def example_game_def)

lemma example_efficiency_call':
  "efficiency_predictGame
     (Some (with_teamName (map_of (example_stats pf) (game_homeTeam example_game)) (game_homeTeam example_game)))
     (Some (with_teamName (map_of (example_stats pf) (game_awayTeam example_game)) (game_awayTeam example_game)))
     (ctx_leagueAverage (example_context pf)) (ctx_rankings (example_context pf)) =
       (Inr (Some (example_efficiency pf)), [])"
  using example_efficiency_call[of pf] by (simp add: example_context_def example_game_def)

subsection \<open>predict when both models answer\<close>

lemma predict_Some:
  assumes "elo_predictGame (ctx_eloRatings ctx) (game_homeTeam g) (game_awayTeam g) = (Inr (Some ep), l1)"
    and "ctx_teamStats ctx = Some ts"
    and "efficiency_predictGame
           (Some (with_teamName (map_of ts (game_homeTeam g)) (game_homeTeam g)))
           (Some (with_teamName (map_of ts (game_awayTeam g)) (game_awayTeam g)))
           (ctx_leagueAverage ctx) (ctx_rankings ctx) = (Inr (Some fp), l2)"
  shows "predict g ctx now = (Inr (Some (combine_predictions g ep fp now)), l1 @ l2)"
  using assms by (simp add: predict_def Let_def)

lemma combine_confidence:
  "p_confidence (combine_predictions g ep fp now) =
     (case (elo_confidence ep, eff_confidence fp) of
        (High, High) \<Rightarrow> High
      | (High, Medium) \<Rightarrow> Medium
      | (Medium, High) \<Rightarrow> Medium
      | (Medium, Medium) \<Rightarrow> Medium
      | _ \<Rightarrow> Low)"
  by (cases "elo_confidence ep"; cases "eff_confidence fp")
     (simp_all add: combine_predictions_def Let_def confidenceLevels_def js_min_def js_seq_def)

lemma js_lt_irrefl: "\<not> js_lt a a"
  by (cases a) simp_all

lemma example_strong_elo:
  "\<exists>ep. elo_predictGame (ctx_eloRatings example_strong_context) (game_homeTeam example_game)
           (game_awayTeam example_game) = (Inr (Some ep), []) \<and>
        elo_confidence ep = High"
  by (simp add: elo_predictGame_def example_strong_context_def example_game_def truthy_field_def
      num_of_def Let_def HOME_FIELD_ADVANTAGE_def js_sub_def js_ge_def
      CONFIDENCE_HIGH_THRESHOLD_def inherited_read_def)

lemma example_strong_efficiency:
  "efficiency_predictGame
     (Some (with_teamName (map_of (example_stats 37) (game_homeTeam example_game)) (game_homeTeam example_game)))
     (Some (with_teamName (map_of (example_stats 37) (game_awayTeam example_game)) (game_awayTeam example_game)))
     (ctx_leagueAverage example_strong_context) (ctx_rankings example_strong_context) =
       (Inr (Some (example_efficiency 37)), [])"
  using example_efficiency_call[of 37] by (simp add: example_strong_context_def example_game_def)

text \<open>
  Claim C2. Whenever the Elo model and the efficiency model both return a prediction,
  \<open>predict\<close> returns a prediction whose confidence tier is the minimum of the two
  sub-model tiers under the ordering high (3) > medium (2) > low (1): it is high
  exactly when both are high, low exactly when either is low, and medium otherwise; so
  it exceeds neither. The record also carries the two sub-model tiers unchanged.
\<close>

theorem predict_confidence_min:
  assumes "elo_predictGame (ctx_eloRatings ctx) (game_homeTeam g) (game_awayTeam g) = (Inr (Some ep), l1)"
    and "ctx_teamStats ctx = Some ts"
    and "efficiency_predictGame
           (Some (with_teamName (map_of ts (game_homeTeam g)) (game_homeTeam g)))
           (Some (with_teamName (map_of ts (game_awayTeam g)) (game_awayTeam g)))
           (ctx_leagueAverage ctx) (ctx_rankings ctx) = (Inr (Some fp), l2)"
  shows "\<exists>p. predict g ctx now = (Inr (Some p), l1 @ l2) \<and>
           (p_confidence p = High) = (elo_confidence ep = High \<and> eff_confidence fp = High) \<and>
           (p_confidence p = Low) = (elo_confidence ep = Low \<or> eff_confidence fp = Low) \<and>
           (p_confidence p = Medium) =
             (elo_confidence ep \<noteq> Low \<and> eff_confidence fp \<noteq> Low \<and>
              (elo_confidence ep = Medium \<or> eff_confidence fp = Medium)) \<and>
           (case p_confidence p of High \<Rightarrow> 3 | Medium \<Rightarrow> 2 | Low \<Rightarrow> (1 :: nat)) =
             min (case elo_confidence ep of High \<Rightarrow> 3 | Medium \<Rightarrow> 2 | Low \<Rightarrow> 1)
                 (case eff_confidence fp of High \<Rightarrow> 3 | Medium \<Rightarrow> 2 | Low \<Rightarrow> 1) \<and>
           eb_confidence (models_elo (p_models p)) = elo_confidence ep \<and>
           fb_confidence (models_efficiency (p_models p)) = eff_confidence fp"
proof -
  let ?p = "combine_predictions g ep fp now"
  have p: "predict g ctx now = (Inr (Some ?p), l1 @ l2)"
    by (rule predict_Some[OF assms])
  have m: "eb_confidence (models_elo (p_models ?p)) = elo_confidence ep"
    "fb_confidence (models_efficiency (p_models ?p)) = eff_confidence fp"
    by (simp_all add: combine_predictions_def Let_def)
  have c: "(p_confidence ?p = High) = (elo_confidence ep = High \<and> eff_confidence fp = High) \<and>
           (p_confidence ?p = Low) = (elo_confidence ep = Low \<or> eff_confidence fp = Low) \<and>
           (p_confidence ?p = Medium) =
             (elo_confidence ep \<noteq> Low \<and> eff_confidence fp \<noteq> Low \<and>
              (elo_confidence ep = Medium \<or> eff_confidence fp = Medium)) \<and>
           (case p_confidence ?p of High \<Rightarrow> 3 | Medium \<Rightarrow> 2 | Low \<Rightarrow> (1 :: nat)) =
             min (case elo_confidence ep of High \<Rightarrow> 3 | Medium \<Rightarrow> 2 | Low \<Rightarrow> 1)
                 (case eff_confidence fp of High \<Rightarrow> 3 | Medium \<Rightarrow> 2 | Low \<Rightarrow> 1)"
    unfolding combine_confidence
    by (cases "elo_confidence ep"; cases "eff_confidence fp") simp_all
  from p m c show ?thesis by blast
qed

theorem predict_confidence_min_witness:
  "elo_predictGame (ctx_eloRatings (example_context 37)) (game_homeTeam example_game)
     (game_awayTeam example_game) = (Inr (Some example_elo_prediction), []) \<and>
   ctx_teamStats (example_context 37) = Some (example_stats 37) \<and>
   efficiency_predictGame
     (Some (with_teamName (map_of (example_stats 37) (game_homeTeam example_game)) (game_homeTeam example_game)))
     (Some (with_teamName (map_of (example_stats 37) (game_awayTeam example_game)) (game_awayTeam example_game)))
     (ctx_leagueAverage (example_context 37)) (ctx_rankings (example_context 37)) =
       (Inr (Some (example_efficiency 37)), []) \<and>
   elo_confidence example_elo_prediction = Low \<and>
   eff_confidence (example_efficiency 37) = High \<and>
   (\<exists>p. predict example_game (example_context 37) ''2025-09-01T12:00:00.000Z'' = (Inr (Some p), []) \<and>
        p_confidence p = Low) \<and>
   (\<exists>ep. elo_predictGame (ctx_eloRatings example_strong_context) (game_homeTeam example_game)
            (game_awayTeam example_game) = (Inr (Some ep), []) \<and>
         elo_confidence ep = High) \<and>
   ctx_teamStats example_strong_context = Some (example_stats 37) \<and>
   efficiency_predictGame
     (Some (with_teamName (map_of (example_stats 37) (game_homeTeam example_game)) (game_homeTeam example_game)))
     (Some (with_teamName (map_of (example_stats 37) (game_awayTeam example_game)) (game_awayTeam example_game)))
     (ctx_leagueAverage example_strong_context) (ctx_rankings example_strong_context) =
       (Inr (Some (example_efficiency 37)), []) \<and>
   (\<exists>p. predict example_game example_strong_context ''2025-09-01T12:00:00.000Z'' = (Inr (Some p), []) \<and>
        p_confidence p = High)"
proof -
  have ts: "ctx_teamStats (example_context 37) = Some (example_stats 37)"
    by (simp add: example_context_def)
  have ec: "elo_confidence example_elo_prediction = Low"
    by (simp add: example_elo_prediction_def)
  from predict_confidence_min[OF example_elo_call ts example_efficiency_call',
      of "''2025-09-01T12:00:00.000Z''"]
  obtain p where p: "predict example_game (example_context 37) ''2025-09-01T12:00:00.000Z'' = (Inr (Some p), [])"
    and lo: "(p_confidence p = Low) =
               (elo_confidence example_elo_prediction = Low \<or> eff_confidence (example_efficiency 37) = Low)"
    by auto
  from lo ec have low: "p_confidence p = Low" by simp
  have ts': "ctx_teamStats example_strong_context = Some (example_stats 37)"
    by (simp add: example_strong_context_def)
  from example_strong_elo obtain ep where
    ep: "elo_predictGame (ctx_eloRatings example_strong_context) (game_homeTeam example_game)
           (game_awayTeam example_game) = (Inr (Some ep), [])"
    and eh: "elo_confidence ep = High"
    by blast
  from predict_confidence_min[OF ep ts' example_strong_efficiency,
      of "''2025-09-01T12:00:00.000Z''"]
  obtain q where q: "predict example_game example_strong_context ''2025-09-01T12:00:00.000Z'' = (Inr (Some q), [])"
    and hi: "(p_confidence q = High) =
               (elo_confidence ep = High \<and> eff_confidence (example_efficiency 37) = High)"
    by auto
  from hi eh example_efficiency_37(2) have high: "p_confidence q = High" by simp
  from p low q high ep eh show ?thesis
    using example_elo_call[of 37] ts example_efficiency_call'[of 37] ec example_efficiency_37(2)
      ts' example_strong_efficiency
    by blast
qed

text \<open>
  Claim C6. Whenever both models answer, the predicted winner of \<open>predict\<close> is the home
  team only if the combined home score (the rounded blend 0.6 Elo + 0.4 efficiency) is
  strictly greater than the combined away score; when the two combined scores are equal
  the predicted winner is the away team.
\<close>

theorem predict_tie_goes_to_away:
  assumes "elo_predictGame (ctx_eloRatings ctx) (game_homeTeam g) (game_awayTeam g) = (Inr (Some ep), l1)"
    and "ctx_teamStats ctx = Some ts"
    and "efficiency_predictGame
           (Some (with_teamName (map_of ts (game_homeTeam g)) (game_homeTeam g)))
           (Some (with_teamName (map_of ts (game_awayTeam g)) (game_awayTeam g)))
           (ctx_leagueAverage ctx) (ctx_rankings ctx) = (Inr (Some fp), l2)"
  shows "\<exists>p home away. predict g ctx now = (Inr (Some p), l1 @ l2) \<and>
           home = js_round (js_add (js_mul (fst (parse_score (elo_predictedScore ep))) (Fin (6 / 10)))
                                   (js_mul (fst (parse_score (eff_predictedScore fp))) (Fin (4 / 10)))) \<and>
           away = js_round (js_add (js_mul (snd (parse_score (elo_predictedScore ep))) (Fin (6 / 10)))
                                   (js_mul (snd (parse_score (eff_predictedScore fp))) (Fin (4 / 10)))) \<and>
           p_predictedScore p = js_string_of home @ ''-'' @ js_string_of away \<and>
           p_predictedWinner p = (if js_gt home away then game_homeTeam g else game_awayTeam g) \<and>
           (home = away \<longrightarrow> p_predictedWinner p = game_awayTeam g)"
proof -
  let ?p = "combine_predictions g ep fp now"
  have "predict g ctx now = (Inr (Some ?p), l1 @ l2)"
    by (rule predict_Some[OF assms])
  then show ?thesis
    by (simp add: combine_predictions_def Let_def js_gt_def js_lt_irrefl)
qed


theorem predict_tie_goes_to_away_witness:
  "elo_predictGame (ctx_eloRatings (example_context 20)) (game_homeTeam example_game)
     (game_awayTeam example_game) = (Inr (Some example_elo_prediction), []) \<and>
   ctx_teamStats (example_context 20) = Some (example_stats 20) \<and>
   efficiency_predictGame
     (Some (with_teamName (map_of (example_stats 20) (game_homeTeam example_game)) (game_homeTeam example_game)))
     (Some (with_teamName (map_of (example_stats 20) (game_awayTeam example_game)) (game_awayTeam example_game)))
     (ctx_leagueAverage (example_context 20)) (ctx_rankings (example_context 20)) =
       (Inr (Some (example_efficiency 20)), []) \<and>
   elo_predictedScore example_elo_prediction = ''23-23'' \<and>
   eff_predictedScore (example_efficiency 20) = ''24-23'' \<and>
   (\<exists>p. predict example_game (example_context 20) ''2025-09-01T12:00:00.000Z'' = (Inr (Some p), []) \<and>
        p_predictedScore p = ''23-23'' \<and> p_predictedWinner p = ''Miami Dolphins'')"
proof -
  have ts: "ctx_teamStats (example_context 20) = Some (example_stats 20)"
    by (simp add: example_context_def)
  have es: "elo_predictedScore example_elo_prediction = ''23-23''"
    by (simp add: example_elo_prediction_def)
  from predict_tie_goes_to_away[OF example_elo_call ts example_efficiency_call',
      of "''2025-09-01T12:00:00.000Z''"]
  obtain p home away where
    p: "predict example_game (example_context 20) ''2025-09-01T12:00:00.000Z'' = (Inr (Some p), [])"
    and h: "home = js_round (js_add (js_mul (fst (parse_score (elo_predictedScore example_elo_prediction))) (Fin (6 / 10)))
                                   (js_mul (fst (parse_score (eff_predictedScore (example_efficiency 20)))) (Fin (4 / 10))))"
    and a: "away = js_round (js_add (js_mul (snd (parse_score (elo_predictedScore example_elo_prediction))) (Fin (6 / 10)))
                                   (js_mul (snd (parse_score (eff_predictedScore (example_efficiency 20)))) (Fin (4 / 10))))"
    and s: "p_predictedScore p = js_string_of home @ ''-'' @ js_string_of away"
    and t: "home = away \<longrightarrow> p_predictedWinner p = game_awayTeam example_game"
    by auto
  have home: "home = Fin 23" unfolding h by (simp add: es example_efficiency_20 parse_score_examples)
  have away: "away = Fin 23" unfolding a by (simp add: es example_efficiency_20 parse_score_examples)
  from t home away have "p_predictedWinner p = ''Miami Dolphins''"
    by (simp add: example_game_def)
  moreover from s home away have "p_predictedScore p = ''23-23''" by simp
  ultimately show ?thesis
    using p example_elo_call[of 20] ts example_efficiency_call'[of 20] es example_efficiency_20(1)
    by blast
qed


subsection \<open>The batch\<close>

lemma predictGames_loop_eq:
  "predictGames_loop gs ctx clock i predictions logged =
     (predictions @
        List.map_filter
          (\<lambda>(k, g). case fst (predict g ctx (clock k)) of Inr (Some p) \<Rightarrow> Some p | _ \<Rightarrow> None)
          (enumerate i gs),
      logged @
        concat (map (\<lambda>(k, g). snd (predict g ctx (clock k)) @
                       (case fst (predict g ctx (clock k)) of
                          Inl e \<Rightarrow> [(Error, ''Failed to predict game'')]
                        | Inr r \<Rightarrow> []))
                    (enumerate i gs)))"
proof (induction gs arbitrary: i predictions logged)
  case Nil
  show ?case by simp
next
  case (Cons g gs)
  obtain r l where pr: "predict g ctx (clock i) = (r, l)" by (cases "predict g ctx (clock i)")
  show ?case
  proof (cases r)
    case (Inl e)
    with pr Cons.IH[of "Suc i"] show ?thesis by simp
  next
    case (Inr res)
    with pr Cons.IH[of "Suc i"] show ?thesis
      by (cases res) simp_all
  qed
qed

lemma map_filter_member:
  "x \<in> set xs \<Longrightarrow> f x = Some p \<Longrightarrow> p \<in> set (List.map_filter f xs)"
  by (induction xs) (auto split: option.splits)

lemma map_filter_source:
  "p \<in> set (List.map_filter f xs) \<Longrightarrow> \<exists>x \<in> set xs. f x = Some p"
  by (induction xs) (auto split: option.splits)

text \<open>
  Claim C8. For every list of games, \<open>predictGames\<close> returns exactly the predictions of
  the games for which \<open>predict\<close> returned one, in the order of the input: each such
  prediction is in the result whatever happened to the games before it, and a game whose
  prediction throws or is \<open>null\<close> contributes nothing. The log is the log of each call
  in turn, each exception followed by the error entry of the handler, and the closing
  count. The function itself has no exceptional result.
\<close>

theorem predictGames_successes_in_order:
  "fst (predictGames gs ctx clock) =
     List.map_filter
       (\<lambda>(k, g). case fst (predict g ctx (clock k)) of Inr (Some p) \<Rightarrow> Some p | _ \<Rightarrow> None)
       (enumerate 0 gs) \<and>
   (\<forall>k p. k < length gs \<and> fst (predict (gs ! k) ctx (clock k)) = Inr (Some p) \<longrightarrow>
      p \<in> set (fst (predictGames gs ctx clock))) \<and>
   (\<forall>p. p \<in> set (fst (predictGames gs ctx clock)) \<longrightarrow>
      (\<exists>k. k < length gs \<and> fst (predict (gs ! k) ctx (clock k)) = Inr (Some p))) \<and>
   snd (predictGames gs ctx clock) =
     concat (map (\<lambda>(k, g). snd (predict g ctx (clock k)) @
                    (case fst (predict g ctx (clock k)) of
                       Inl e \<Rightarrow> [(Error, ''Failed to predict game'')]
                     | Inr r \<Rightarrow> []))
                 (enumerate 0 gs)) @
     [(Info, ''Generated '' @ string_of_nat (length (fst (predictGames gs ctx clock))) @ ''/'' @
             string_of_nat (length gs) @ '' predictions'')]"
proof -
  let ?f = "\<lambda>(k, g). case fst (predict g ctx (clock k)) of Inr (Some p) \<Rightarrow> Some p | _ \<Rightarrow> None"
  have res: "fst (predictGames gs ctx clock) = List.map_filter ?f (enumerate 0 gs)"
    by (simp add: predictGames_def predictGames_loop_eq del: string_of_nat.simps)
  have lg: "snd (predictGames gs ctx clock) =
     concat (map (\<lambda>(k, g). snd (predict g ctx (clock k)) @
                    (case fst (predict g ctx (clock k)) of
                       Inl e \<Rightarrow> [(Error, ''Failed to predict game'')]
                     | Inr r \<Rightarrow> []))
                 (enumerate 0 gs)) @
     [(Info, ''Generated '' @ string_of_nat (length (fst (predictGames gs ctx clock))) @ ''/'' @
             string_of_nat (length gs) @ '' predictions'')]"
    by (simp add: predictGames_def predictGames_loop_eq del: string_of_nat.simps)
  have incl: "p \<in> set (fst (predictGames gs ctx clock))"
    if "k < length gs" and "fst (predict (gs ! k) ctx (clock k)) = Inr (Some p)" for k p
  proof -
    from that(1) have "(k, gs ! k) \<in> set (enumerate 0 gs)" by (simp add: in_set_enumerate_eq)
    moreover from that(2) have "?f (k, gs ! k) = Some p" by simp
    ultimately show ?thesis unfolding res by (rule map_filter_member)
  qed
  have only: "\<exists>k. k < length gs \<and> fst (predict (gs ! k) ctx (clock k)) = Inr (Some p)"
    if "p \<in> set (fst (predictGames gs ctx clock))" for p
  proof -
    from that obtain x where x: "x \<in> set (enumerate 0 gs)" "?f x = Some p"
      unfolding res by (blast dest: map_filter_source)
    obtain k g where kg: "x = (k, g)" by (cases x)
    with x(1) have k: "k < length gs" "g = gs ! k" by (simp_all add: in_set_enumerate_eq)
    from x(2) kg k have "fst (predict (gs ! k) ctx (clock k)) = Inr (Some p)"
      by (auto split: sum.splits option.splits)
    with k show ?thesis by blast
  qed
  from res lg incl only show ?thesis by blast
qed

lemma example_unknown_predict:
  "fst (predict example_unknown_game (example_context 20) now) = Inr None"
  by (simp add: predict_def example_unknown_game_def example_context_def example_ratings_def
      elo_predictGame_def truthy_field_def efficiency_predictGame_def calculateMatchupAdvantage_def
      example_rankings_def Let_def inherited_read_def object_prototype_names_def)

lemma example_predict:
  "predict example_game (example_context 20) now =
     (Inr (Some (combine_predictions example_game example_elo_prediction (example_efficiency 20) now)), [])"
  using predict_Some[OF example_elo_call _ example_efficiency_call', of 20 now]
  by (simp add: example_context_def)

lemma example_predict_throws:
  "predict example_game ((example_context 20)\<lparr>ctx_rankings := None\<rparr>) now = (Inl TypeError, [])"
  using example_elo
  by (simp add: predict_def example_game_def example_context_def 
      efficiency_predictGame_def calculateMatchupAdvantage_def Let_def)

theorem predictGames_successes_in_order_witness:
  "(1 :: nat) < length [example_unknown_game, example_game] \<and>
   fst (predict example_unknown_game (example_context 20) ''t0'') = Inr None \<and>
   fst (predict ([example_unknown_game, example_game] ! 1) (example_context 20) ''t1'') =
     Inr (Some (combine_predictions example_game example_elo_prediction (example_efficiency 20) ''t1'')) \<and>
   combine_predictions example_game example_elo_prediction (example_efficiency 20) ''t1''
     \<in> set (fst (predictGames [example_unknown_game, example_game] (example_context 20)
                   (\<lambda>k. if k = 0 then ''t0'' else ''t1''))) \<and>
   fst (predictGames [example_unknown_game, example_game] (example_context 20)
          (\<lambda>k. if k = 0 then ''t0'' else ''t1'')) =
     [combine_predictions example_game example_elo_prediction (example_efficiency 20) ''t1'']"
proof -
  let ?clock = "\<lambda>k :: nat. if k = 0 then ''t0'' else ''t1''"
  let ?gs = "[example_unknown_game, example_game]"
  have l: "(1 :: nat) < length ?gs" by simp
  have p: "fst (predict (?gs ! 1) (example_context 20) (?clock 1)) =
     Inr (Some (combine_predictions example_game example_elo_prediction (example_efficiency 20) ''t1''))"
    by (simp add: example_predict)
  note inst = predictGames_successes_in_order[of ?gs "example_context 20" ?clock]
  from inst l p
  have m: "combine_predictions example_game example_elo_prediction (example_efficiency 20) ''t1''
     \<in> set (fst (predictGames ?gs (example_context 20) ?clock))"
    by blast
  from inst have "fst (predictGames ?gs (example_context 20) ?clock) =
     List.map_filter
       (\<lambda>(k, g). case fst (predict g (example_context 20) (?clock k)) of
                    Inr (Some p) \<Rightarrow> Some p | _ \<Rightarrow> None)
       (enumerate 0 ?gs)"
    by blast
  also have "\<dots> = [combine_predictions example_game example_elo_prediction (example_efficiency 20) ''t1'']"
    by (simp add: example_unknown_predict example_predict)
  finally have e: "fst (predictGames ?gs (example_context 20) ?clock) =
     [combine_predictions example_game example_elo_prediction (example_efficiency 20) ''t1'']" .
  from l p m e example_unknown_predict[of "''t0''"] show ?thesis by simp
qed

text \<open>With the rankings absent every prediction throws; the batch still ends normally.\<close>

lemma predictGames_example_all_throw:
  "predictGames [example_game, example_game] ((example_context 20)\<lparr>ctx_rankings := None\<rparr>) clock =
     ([], [(Error, ''Failed to predict game''), (Error, ''Failed to predict game''),
           (Info, ''Generated 0/2 predictions'')])"
  by (simp add: predictGames_def example_predict_throws)

subsection \<open>Numbers rendered and read back\<close>

lemma nth_digit:
  assumes "k < 10"
  shows "''0123456789'' ! k \<in> set ''0123456789''" and "digit_val (''0123456789'' ! k) = Some k"
proof -
  from assms have "k = 0 \<or> k = 1 \<or> k = 2 \<or> k = 3 \<or> k = 4 \<or> k = 5 \<or> k = 6 \<or> k = 7 \<or> k = 8 \<or> k = 9"
    by arith
  then show "''0123456789'' ! k \<in> set ''0123456789''" by (elim disjE) simp_all
  from \<open>k = 0 \<or> k = 1 \<or> k = 2 \<or> k = 3 \<or> k = 4 \<or> k = 5 \<or> k = 6 \<or> k = 7 \<or> k = 8 \<or> k = 9\<close>
  show "digit_val (''0123456789'' ! k) = Some k" by (elim disjE) (simp_all add: digit_val_def)
qed

lemma digits_value_snoc:
  "digits_value R (ds @ [c]) = digits_value R ds * R + (case digit_val c of None \<Rightarrow> 0 | Some d \<Rightarrow> d)"
  by (simp add: digits_value_def)

lemma string_of_nat_digits:
  "list_all (\<lambda>c. c \<in> set ''0123456789'') (string_of_nat n) \<and> string_of_nat n \<noteq> [] \<and>
   digits_value 10 (string_of_nat n) = n"
proof (induction n rule: string_of_nat.induct)
  case (1 n)
  show ?case
  proof (cases "n < 10")
    case True
    then have s: "string_of_nat n = [''0123456789'' ! n]" by (subst string_of_nat.simps) simp
    show ?thesis unfolding s using nth_digit[OF True] by (simp add: digits_value_def del: set_simps)
  next
    case False
    then have s: "string_of_nat n = string_of_nat (n div 10) @ [''0123456789'' ! (n mod 10)]"
      by (subst string_of_nat.simps) simp
    have m: "n mod 10 < 10" by simp
    from 1[OF False] show ?thesis unfolding s using nth_digit[OF m]
      by (simp add: digits_value_snoc del: set_simps string_of_nat.simps)
  qed
qed

lemma digit_string_string_of_nat: "digit_string (string_of_nat n)"
  using string_of_nat_digits[of n] by (simp add: digit_string_def)

lemma digit_string_last:
  assumes "digit_string s"
  shows "dropWhile StrWhiteSpaceChar (rev s) = rev s"
proof -
  from assms have "s \<noteq> []" and "last s \<in> set ''0123456789''"
    by (auto simp: digit_string_def list_all_iff simp del: set_simps)
  then have "rev s \<noteq> []" and "\<not> StrWhiteSpaceChar (hd (rev s))"
    by (simp_all add: hd_rev dec_char_not_ws del: set_simps)
  then show ?thesis by (cases "rev s") simp_all
qed

lemma Number_digit_string:
  assumes "digit_string s"
  shows "Number s = Fin (real (digits_value 10 s))"
proof -
  from assms obtain c r where s: "s = c # r" and c: "c \<in> set ''0123456789''"
    and r: "list_all (\<lambda>c. c \<in> set ''0123456789'') r"
    by (cases s) (auto simp: digit_string_def)
  have all: "list_all (\<lambda>c. c \<in> set ''0123456789'') s" using s c r by simp
  have ws: "dropWhile StrWhiteSpaceChar s = s" using s dec_char_not_ws[OF c] by simp
  have tr: "trim s = s" by (simp add: trim_def ws digit_string_last[OF assms])
  have ne: "s \<noteq> []" using s by simp
  have two: "take 2 s \<noteq> [x, y]" if "y \<notin> set ''0123456789''" for x y
    using s r that by (cases r) (auto simp del: set_simps)
  have rad: "non_decimal_radix s = None"
    unfolding non_decimal_radix_def by (simp add: two)
  have sg: "take 1 s \<noteq> ''-''" "take 1 s \<noteq> ''+''" using s dec_char_plain[OF c] by auto
  have inf: "take 8 s \<noteq> ''Infinity''" using s dec_char_plain[OF c] by auto
  have dd: "decimal_digits s = (s, [])"
    using all by (simp add: decimal_digits_def digit_string_takeWhile
        list_all_iff dec_char_is_digit del: set_simps)
  have ud: "unsigned_decimal s = Some (Fin (real (digits_value 10 s)), [])"
    unfolding unsigned_decimal_def
    by (simp add: inf dd ne exponent_part_def scale10_def digits_value_def)
  have sd: "str_decimal_literal s = Some (Fin (real (digits_value 10 s)), [])"
    unfolding str_decimal_literal_def using sg by (simp add: ud)
  show ?thesis unfolding Number_def by (simp add: tr ne rad sd)
qed

lemma Number_string_of_nat: "Number (string_of_nat n) = Fin (real n)"
  using Number_digit_string[OF digit_string_string_of_nat[of n]] string_of_nat_digits[of n]
  by simp

lemma Number_words: "Number ''NaN'' = NaN" "Number ''Infinity'' = PInf"
  by (simp_all add: Number_def trim_def StrWhiteSpaceChar_def non_decimal_radix_def
      str_decimal_literal_def unsigned_decimal_def decimal_digits_def is_digit_def digit_val_def)

lemma plain_score_render:
  assumes "plain_score w"
  shows "Number (js_string_of w) = of_whole w" and "CHR ''-'' \<notin> set (js_string_of w)"
proof -
  show "Number (js_string_of w) = of_whole w"
  proof (cases w)
    case (Fin i)
    with assms have "0 \<le> i" by (simp add: plain_score_def)
    with Fin show ?thesis by (simp add: Number_string_of_nat of_whole_def del: string_of_nat.simps)
  qed (use assms in \<open>simp_all add: Number_words of_whole_def plain_score_def\<close>)
  show "CHR ''-'' \<notin> set (js_string_of w)"
  proof (cases w)
    case (Fin i)
    with assms have "0 \<le> i" by (simp add: plain_score_def)
    with Fin show ?thesis
      using digit_string_no_dash[OF digit_string_string_of_nat[of "nat i"]]
      by (simp del: string_of_nat.simps)
  qed (use assms in \<open>simp_all add: plain_score_def\<close>)
qed

lemma parse_score_pair:
  assumes "CHR ''-'' \<notin> set x" and "CHR ''-'' \<notin> set y"
  shows "parse_score (x @ ''-'' @ y) = (Number x, Number y)"
  using assms
  by (simp add: parse_score_def split_on_append split_on_no_sep js_index_def num_of_def)

lemma parse_score_render:
  assumes "plain_score h" and "plain_score a"
  shows "parse_score (js_string_of h @ ''-'' @ js_string_of a) = (of_whole h, of_whole a)"
  using parse_score_pair[OF plain_score_render(2)[OF assms(1)] plain_score_render(2)[OF assms(2)]]
  by (simp add: plain_score_render(1)[OF assms(1)] plain_score_render(1)[OF assms(2)])


subsection \<open>The scores that predict renders\<close>

text \<open>
  Both models floor their scores at 0, and the blend of two such scores is not negative:
  every prediction that \<open>predict\<close> returns carries a score of the shape that
  \<open>checkPrediction\<close> reads back.
\<close>

lemma plain_round_max: "plain_score (js_round (js_max (Fin 0) v))"
  by (cases v) (auto simp: plain_score_def js_max_def)

lemma plain_max_round: "plain_score (js_max (Fin 0) w)"
  by (cases w) (auto simp: plain_score_def js_max_def)

lemma nonneg_of_whole: "plain_score w \<Longrightarrow> nonneg_num (of_whole w)"
  by (cases w) (auto simp: plain_score_def nonneg_num_def of_whole_def)

lemma nonneg_blend:
  assumes "nonneg_num x" and "nonneg_num y"
  shows "plain_score (js_round (js_add (js_mul x (Fin (6 / 10))) (js_mul y (Fin (4 / 10)))))"
  using assms by (cases x; cases y) (auto simp: nonneg_num_def plain_score_def)

lemma predict_SomeD:
  assumes "predict g ctx now = (Inr (Some p), l)"
  shows "\<exists>ep fp ts l1 l2.
           elo_predictGame (ctx_eloRatings ctx) (game_homeTeam g) (game_awayTeam g) = (Inr (Some ep), l1) \<and>
           ctx_teamStats ctx = Some ts \<and>
           efficiency_predictGame
             (Some (with_teamName (map_of ts (game_homeTeam g)) (game_homeTeam g)))
             (Some (with_teamName (map_of ts (game_awayTeam g)) (game_awayTeam g)))
             (ctx_leagueAverage ctx) (ctx_rankings ctx) = (Inr (Some fp), l2) \<and>
           p = combine_predictions g ep fp now \<and> l = l1 @ l2"
  using assms
  by (auto simp: predict_def Let_def split: prod.splits sum.splits option.splits)

lemma elo_score_shape:
  assumes "elo_predictGame r home away = (Inr (Some ep), l)"
  shows "\<exists>X Y. elo_predictedScore ep =
           js_string_of (js_max (Fin 0) X) @ ''-'' @ js_string_of (js_max (Fin 0) Y)"
proof (cases r)
  case None
  with assms show ?thesis by (simp add: elo_predictGame_def)
next
  case (Some m)
  show ?thesis
  proof (cases "\<not> (truthy_field (m home) \<or> inherited_read m home) \<or>
                \<not> (truthy_field (m away) \<or> inherited_read m away) \<or>
                inherited_read m home \<or> inherited_read m away")
    case True
    with assms Some show ?thesis by (auto simp: elo_predictGame_def split: if_splits)
  next
    case False
    with assms Some have "elo_predictedScore ep =
        js_string_of (js_max (Fin 0)
          (js_round (js_add (Fin 23)
             (js_div (js_div (js_sub (js_add (num_of (m home)) (js_mul (Fin HOME_FIELD_ADVANTAGE) (Fin 25)))
                                     (num_of (m away))) (Fin 25)) (Fin 2))))) @ ''-'' @
        js_string_of (js_max (Fin 0)
          (js_round (js_sub (Fin 23)
             (js_div (js_div (js_sub (js_add (num_of (m home)) (js_mul (Fin HOME_FIELD_ADVANTAGE) (Fin 25)))
                                     (num_of (m away))) (Fin 25)) (Fin 2)))))"
      by (auto simp: elo_predictGame_def Let_def
          simp del: js_string_of.simps js_round.simps js_mul.simps js_add.simps js_div.simps)
    then show ?thesis by blast
  qed
qed

lemma elo_score_plain:
  assumes "elo_predictGame r home away = (Inr (Some ep), l)"
  shows "\<exists>h a. plain_score h \<and> plain_score a \<and>
           elo_predictedScore ep = js_string_of h @ ''-'' @ js_string_of a"
  using elo_score_shape[OF assms] plain_max_round by blast

lemma efficiency_projection_shape:
  "\<exists>X Y. eff_predictedScore (efficiency_projection home away league hm am) =
           js_string_of (js_round (js_max (Fin 0) X)) @ ''-'' @
           js_string_of (js_round (js_max (Fin 0) Y))"
  unfolding efficiency_projection_def Let_def
  by (simp del: js_string_of.simps js_round.simps js_mul.simps js_add.simps) blast

lemma efficiency_score_plain:
  assumes "efficiency_predictGame h a lg r = (Inr (Some fp), l)"
  shows "\<exists>x y. plain_score x \<and> plain_score y \<and>
           eff_predictedScore fp = js_string_of x @ ''-'' @ js_string_of y"
proof -
  from assms obtain home away league hm am where
    "fp = efficiency_projection home away league hm am"
    by (auto simp: efficiency_predictGame_def split: option.splits sum.splits)
  with efficiency_projection_shape[of home away league hm am] plain_round_max
  show ?thesis by blast
qed

lemma predict_score_plain:
  assumes "predict g ctx now = (Inr (Some p), l)"
  shows "\<exists>h a. plain_score h \<and> plain_score a \<and>
           p_predictedScore p = js_string_of h @ ''-'' @ js_string_of a"
proof -
  from predict_SomeD[OF assms] obtain ep fp ts l1 l2 where
    e: "elo_predictGame (ctx_eloRatings ctx) (game_homeTeam g) (game_awayTeam g) = (Inr (Some ep), l1)"
    and f: "efficiency_predictGame
             (Some (with_teamName (map_of ts (game_homeTeam g)) (game_homeTeam g)))
             (Some (with_teamName (map_of ts (game_awayTeam g)) (game_awayTeam g)))
             (ctx_leagueAverage ctx) (ctx_rankings ctx) = (Inr (Some fp), l2)"
    and p: "p = combine_predictions g ep fp now"
    by blast
  from elo_score_plain[OF e] obtain eh ea where
    es: "plain_score eh" "plain_score ea" "elo_predictedScore ep = js_string_of eh @ ''-'' @ js_string_of ea"
    by blast
  from efficiency_score_plain[OF f] obtain fh fa where
    fs: "plain_score fh" "plain_score fa" "eff_predictedScore fp = js_string_of fh @ ''-'' @ js_string_of fa"
    by blast
  have pe: "parse_score (elo_predictedScore ep) = (of_whole eh, of_whole ea)"
    unfolding es(3) by (rule parse_score_render[OF es(1,2)])
  have pf: "parse_score (eff_predictedScore fp) = (of_whole fh, of_whole fa)"
    unfolding fs(3) by (rule parse_score_render[OF fs(1,2)])
  let ?H = "js_round (js_add (js_mul (of_whole eh) (Fin (6 / 10))) (js_mul (of_whole fh) (Fin (4 / 10))))"
  let ?A = "js_round (js_add (js_mul (of_whole ea) (Fin (6 / 10))) (js_mul (of_whole fa) (Fin (4 / 10))))"
  have "p_predictedScore p = js_string_of ?H @ ''-'' @ js_string_of ?A"
    by (simp add: p combine_predictions_def Let_def pe pf del: js_string_of.simps js_round.simps)
  moreover have "plain_score ?H"
    by (rule nonneg_blend) (rule nonneg_of_whole, fact)+
  moreover have "plain_score ?A"
    by (rule nonneg_blend) (rule nonneg_of_whole, fact)+
  ultimately show ?thesis by blast
qed

subsection \<open>checkPrediction\<close>

text \<open>
  A final score of 20-20: neither side has the strictly higher score, yet
  \<open>checkPrediction\<close> records the visiting team as \<open>actualWinner\<close> and marks a
  prediction of the visitor as correct.
\<close>

theorem checkPrediction_tie_names_away:
  "ar_homeScore example_tied_result = Fin 20 \<and>
   ar_awayScore example_tied_result = Fin 20 \<and>
   \<not> js_gt (ar_awayScore example_tied_result) (ar_homeScore example_tied_result) \<and>
   \<not> js_gt (ar_homeScore example_tied_result) (ar_awayScore example_tied_result) \<and>
   ar_awayTeam example_tied_result = ''Miami Dolphins'' \<and>
   p_predictedWinner example_away_pick = ''Miami Dolphins'' \<and>
   p_actualWinner (checkPrediction example_away_pick example_tied_result ''2025-09-08T03:00:00.000Z'') =
     Some ''Miami Dolphins'' \<and>
   p_correct (checkPrediction example_away_pick example_tied_result ''2025-09-08T03:00:00.000Z'') =
     Some True"
  by (simp add: checkPrediction_def example_away_pick_def example_prediction_def
      example_tied_result_def js_gt_def Let_def)

text \<open>
  Claim C3, amended. For every prediction record and actual result, \<open>checkPrediction\<close>
  returns a record in which: whenever one side has the strictly higher actual score,
  \<open>actualWinner\<close> is that side (for equal scores nothing is stated); \<open>correct\<close> says
  whether the predicted winner is the recorded \<open>actualWinner\<close>; \<open>checked\<close> is true;
  and all other properties are those of the input, of which the returned record is a
  changed copy. Where \<open>predictedScore\<close> renders two scores \<open>h\<close> and \<open>a\<close> (as every
  prediction of \<open>predict\<close> does), \<open>scoreError\<close> is
  \<open>|h - actualHome| + |a - actualAway|\<close>; the four scores are then whole numbers of
  magnitude at most \<open>2^51\<close> (or not finite), so that the program computes the error
  exactly. For 24-20 against an actual 20-24 this gives \<open>correct = false\<close> and
  \<open>scoreError = 8\<close>.
\<close>

theorem checkPrediction_result:
  "let c = checkPrediction prediction r now
   in (js_gt (ar_homeScore r) (ar_awayScore r) \<longrightarrow> p_actualWinner c = Some (ar_homeTeam r)) \<and>
      (js_gt (ar_awayScore r) (ar_homeScore r) \<longrightarrow> p_actualWinner c = Some (ar_awayTeam r)) \<and>
      (\<exists>w. p_actualWinner c = Some w \<and> p_correct c = Some (p_predictedWinner prediction = w)) \<and>
      p_checked c \<and>
      c\<lparr>p_checked := p_checked prediction, p_correct := p_correct prediction,
        p_actualWinner := p_actualWinner prediction, p_actualScore := p_actualScore prediction,
        p_scoreError := p_scoreError prediction, p_checkedAt := p_checkedAt prediction\<rparr>
        = prediction \<and>
      (\<forall>h a. plain_score h \<and> plain_score a \<and>
             p_predictedScore prediction = js_string_of h @ ''-'' @ js_string_of a \<and>
             small_score h \<and> small_score a \<and>
             small_score (ar_homeScore r) \<and> small_score (ar_awayScore r) \<longrightarrow>
         p_scoreError c =
           Some (js_add (js_abs (js_sub (of_whole h) (of_whole (ar_homeScore r))))
                        (js_abs (js_sub (of_whole a) (of_whole (ar_awayScore r))))) \<and>
         (\<forall>ph pa ah aa. h = Fin ph \<and> a = Fin pa \<and> ar_homeScore r = Fin ah \<and> ar_awayScore r = Fin aa
            \<longrightarrow> p_scoreError c = Some (Fin (real_of_int (\<bar>ph - ah\<bar> + \<bar>pa - aa\<bar>)))))"
proof -
  let ?c = "checkPrediction prediction r now"
  have gt: "js_gt x y \<Longrightarrow> \<not> js_gt y x" for x y :: "int jsnum"
    by (cases x; cases y) (simp_all add: js_gt_def)
  have winner: "(js_gt (ar_homeScore r) (ar_awayScore r) \<longrightarrow> p_actualWinner ?c = Some (ar_homeTeam r)) \<and>
      (js_gt (ar_awayScore r) (ar_homeScore r) \<longrightarrow> p_actualWinner ?c = Some (ar_awayTeam r)) \<and>
      (\<exists>w. p_actualWinner ?c = Some w \<and> p_correct ?c = Some (p_predictedWinner prediction = w)) \<and>
      p_checked ?c"
    by (auto simp: Let_def checkPrediction_def dest: gt)
  have copy: "?c\<lparr>p_checked := p_checked prediction, p_correct := p_correct prediction,
        p_actualWinner := p_actualWinner prediction, p_actualScore := p_actualScore prediction,
        p_scoreError := p_scoreError prediction, p_checkedAt := p_checkedAt prediction\<rparr>
        = prediction"
    by (simp add: Let_def checkPrediction_def)
  have fin: "js_add (js_abs (js_sub (of_whole (Fin ph)) (of_whole (Fin ah))))
                    (js_abs (js_sub (of_whole (Fin pa)) (of_whole (Fin aa)))) =
             Fin (real_of_int (\<bar>ph - ah\<bar> + \<bar>pa - aa\<bar>))" for ph pa ah aa :: int
    by (simp add: of_whole_def js_sub_def)
  have err: "p_scoreError ?c =
           Some (js_add (js_abs (js_sub (of_whole h) (of_whole (ar_homeScore r))))
                        (js_abs (js_sub (of_whole a) (of_whole (ar_awayScore r))))) \<and>
         (\<forall>ph pa ah aa. h = Fin ph \<and> a = Fin pa \<and> ar_homeScore r = Fin ah \<and> ar_awayScore r = Fin aa
            \<longrightarrow> p_scoreError ?c = Some (Fin (real_of_int (\<bar>ph - ah\<bar> + \<bar>pa - aa\<bar>))))"
    if "plain_score h" "plain_score a"
      and "p_predictedScore prediction = js_string_of h @ ''-'' @ js_string_of a" for h a
  proof -
    have ps: "parse_score (p_predictedScore prediction) = (of_whole h, of_whole a)"
      unfolding that(3) by (rule parse_score_render[OF that(1,2)])
    show ?thesis
      by (simp add: Let_def checkPrediction_def ps fin del: string_of_nat.simps)
  qed
  from winner copy err show ?thesis unfolding Let_def by blast
qed

theorem checkPrediction_result_witness:
  "js_gt (ar_awayScore example_result) (ar_homeScore example_result) \<and>
   ar_awayTeam example_result = ''Miami Dolphins'' \<and>
   p_predictedWinner example_prediction = ''Buffalo Bills'' \<and>
   plain_score (Fin 24) \<and> plain_score (Fin 20) \<and>
   p_predictedScore example_prediction = js_string_of (Fin 24) @ ''-'' @ js_string_of (Fin 20) \<and>
   small_score (Fin 24) \<and> small_score (Fin 20) \<and>
   small_score (ar_homeScore example_result) \<and> small_score (ar_awayScore example_result) \<and>
   ar_homeScore example_result = Fin 20 \<and> ar_awayScore example_result = Fin 24 \<and>
   p_actualWinner (checkPrediction example_prediction example_result ''2025-09-08T03:00:00.000Z'') =
     Some ''Miami Dolphins'' \<and>
   p_correct (checkPrediction example_prediction example_result ''2025-09-08T03:00:00.000Z'') = Some False \<and>
   p_scoreError (checkPrediction example_prediction example_result ''2025-09-08T03:00:00.000Z'') = Some (Fin 8) \<and>
   p_checked (checkPrediction example_prediction example_result ''2025-09-08T03:00:00.000Z'')"
proof -
  let ?c = "checkPrediction example_prediction example_result ''2025-09-08T03:00:00.000Z''"
  have h1: "plain_score (Fin 24)" and h2: "plain_score (Fin 20)"
    by (simp_all add: plain_score_def)
  have h3: "p_predictedScore example_prediction = js_string_of (Fin 24) @ ''-'' @ js_string_of (Fin 20)"
    by (simp add: example_prediction_def)
  have h4: "small_score (Fin 24)" and h5: "small_score (Fin 20)"
    and h6: "small_score (ar_homeScore example_result)"
    and h7: "small_score (ar_awayScore example_result)"
    by (simp_all add: small_score_def example_result_def)
  have g: "js_gt (ar_awayScore example_result) (ar_homeScore example_result)"
    by (simp add: example_result_def js_gt_def)
  have pw: "p_predictedWinner example_prediction = ''Buffalo Bills''"
    by (simp add: example_prediction_def)
  have sc: "ar_homeScore example_result = Fin 20" "ar_awayScore example_result = Fin 24"
    "ar_awayTeam example_result = ''Miami Dolphins''"
    by (simp_all add: example_result_def)
  note inst = checkPrediction_result[of example_prediction example_result
      "''2025-09-08T03:00:00.000Z''", unfolded Let_def]
  from inst g have w: "p_actualWinner ?c = Some ''Miami Dolphins''"
    unfolding sc(3)[symmetric] by blast
  from inst obtain x where "p_actualWinner ?c = Some x"
    and "p_correct ?c = Some (p_predictedWinner example_prediction = x)"
    by blast
  with w pw have c: "p_correct ?c = Some False" by simp
  from inst h1 h2 h3 h4 h5 h6 h7
  have "\<forall>ph pa ah aa. Fin 24 = Fin ph \<and> Fin 20 = Fin pa \<and> ar_homeScore example_result = Fin ah \<and>
           ar_awayScore example_result = Fin aa
            \<longrightarrow> p_scoreError ?c = Some (Fin (real_of_int (\<bar>ph - ah\<bar> + \<bar>pa - aa\<bar>)))"
    by blast
  with sc(1,2) have "p_scoreError ?c = Some (Fin (real_of_int (\<bar>24 - 20\<bar> + \<bar>20 - 24\<bar>)))"
    by blast
  then have e: "p_scoreError ?c = Some (Fin 8)" by simp
  from inst have k: "p_checked ?c" by blast
  from h1 h2 h3 h4 h5 h6 h7 g pw sc w c e k show ?thesis by blast
qed

end
